theory Spec2Isabelle
  imports Main "HOL-Library.Sublist"
begin

section \<open>The search form of \<^verbatim>\<open>src/components/SearchForm.js\<close>\<close>

text \<open>
  The component keeps four pieces of React state (\<^verbatim>\<open>formData\<close>, \<^verbatim>\<open>isLoading\<close>,
  \<^verbatim>\<open>error\<close>, \<^verbatim>\<open>currentBookingData\<close>), one ref (\<^verbatim>\<open>scrollManagerRef\<close>) and
  drives the parent's \<^verbatim>\<open>isBookingDialogOpen\<close> through the setter it receives as a prop.
  The model passes this state explicitly. Scroll managers are objects with identity, so
  they live in a store (a list, the address of a manager is its index) and the ref holds
  an address. Every setter call and every method call on a manager is also appended to
  a trace, as are the timer, the alert, the rewrite of the address bar and an exception
  that leaves a handler uncaught, so that the order in which the code performs its
  effects can be stated. Console output and \<^verbatim>\<open>preventDefault\<close> are left out.
\<close>

subsection \<open>Data\<close>

text \<open>The four form fields are strings (\<^verbatim>\<open>from\<close>, \<^verbatim>\<open>to\<close>, \<^verbatim>\<open>date\<close>, \<^verbatim>\<open>passengers\<close>).\<close>

record form_data =
  fd_from :: string
  fd_to :: string
  fd_date :: string
  fd_passengers :: string

text \<open>
  The object built at lines 98-112. \<^verbatim>\<open>passengersCount\<close> is the result of
  \<^verbatim>\<open>parseInt\<close>: \<open>None\<close> stands for \<^verbatim>\<open>NaN\<close>. The \<^verbatim>\<open>onClose\<close> member is a
  closure over the component's setters; it is the function \<open>onClose\<close> below.
\<close>

record booking_data =
  origin :: string
  destination :: string
  departureDate :: string
  passengersCount :: "int option"

datatype lock_state = Unlocked | Locked

text \<open>
  Modelled from the spec: the scroll manager class of
  \<^verbatim>\<open>src/utils/safariYetuScrollManager\<close>, which \<^verbatim>\<open>SearchForm.js\<close> imports and
  whose source is not among the files. The specification describes a manager by its
  lock state and by whether it has been disposed of (\<open>inert\<close>).
\<close>

record manager =
  lock :: lock_state
  inert :: bool

datatype effect =
    SetFormData form_data
  | SetIsLoading bool
  | SetError string
  | SetCurrentBookingData "booking_data option"
  | SetIsBookingDialogOpen bool
  | CreateInstance nat
  | Cleanup nat
  | DisableScroll nat
  | EnableScroll nat
  | OpenBookingDialog nat booking_data
  | SetTimeout nat
  | Alert
  | ReplaceState
  | UncaughtTypeError

record component =
  formData :: form_data
  isLoading :: bool
  error :: string
  currentBookingData :: "booking_data option"
  scrollManagerRef :: "nat option"
  isBookingDialogOpen :: bool
  managers :: "manager list"
  trace :: "effect list"

text \<open>
  A value that reaches the \<^verbatim>\<open>catch\<close> block of \<^verbatim>\<open>handleSubmit\<close>. JavaScript can
  throw anything, and the block reads \<^verbatim>\<open>error.message\<close> and calls
  \<^verbatim>\<open>includes\<close> on it, so the cases are kept apart:
  \<^item> \<open>Nullish\<close>: the thrown value is \<^verbatim>\<open>null\<close> or \<^verbatim>\<open>undefined\<close>, and reading
    \<^verbatim>\<open>error.message\<close> throws a \<^verbatim>\<open>TypeError\<close>;
  \<^item> \<open>Value Absent\<close>: the value has no \<^verbatim>\<open>message\<close>, or one that is falsy and not a
    string (\<^verbatim>\<open>undefined\<close>, \<^verbatim>\<open>null\<close>, \<^verbatim>\<open>0\<close>, \<^verbatim>\<open>false\<close>, \<^verbatim>\<open>NaN\<close>);
  \<^item> \<open>Value (Text msg)\<close>: the message is the string \<open>msg\<close>, as for every
    \<^verbatim>\<open>Error\<close>;
  \<^item> \<open>Value NotText\<close>: the message is truthy, not a string, and has no method
    \<^verbatim>\<open>includes\<close> (a number, \<^verbatim>\<open>true\<close>, a plain object, a function), so the call of
    \<^verbatim>\<open>includes\<close> throws a \<^verbatim>\<open>TypeError\<close>.
  A message that is not a string and yet has a method \<^verbatim>\<open>includes\<close> (an array) is not
  among the cases.
\<close>

datatype message = Absent | Text string | NotText

datatype thrown = Nullish | Value message

text \<open>
  The methods of a manager that a call can perform on it, as the specification lists
  them.
\<close>

datatype manager_call = CallDisableScroll | CallEnableScroll | CallCleanup

text \<open>
  What \<^verbatim>\<open>handleSubmit\<close> reads from its surroundings: whether
  \<^verbatim>\<open>window.safariplus\<close> is defined, the value of \<^verbatim>\<open>process.env.NODE_ENV\<close>, and
  what the call of \<^verbatim>\<open>openBookingDialog\<close> does. That method belongs to the scroll
  manager module, which is not among the files, and the specification does not describe
  it. So both of its effects are parameters: \<open>dialog_calls\<close> is the list of the
  manager's own methods that the call performs on its manager (none, or
  \<^verbatim>\<open>disableScroll\<close>, or any other sequence), and \<open>open_result\<close> is how the promise
  it returns settles, a rejection carrying the thrown value.
\<close>

datatype open_result = Resolves | Rejects thrown

record env =
  safariplus_defined :: bool
  node_env :: string
  dialog_calls :: "manager_call list"
  open_result :: open_result

subsection \<open>State setters\<close>

definition setFormData :: "form_data \<Rightarrow> component \<Rightarrow> component" where
  "setFormData f s = s\<lparr>formData := f, trace := trace s @ [SetFormData f]\<rparr>"

definition setIsLoading :: "bool \<Rightarrow> component \<Rightarrow> component" where
  "setIsLoading b s = s\<lparr>isLoading := b, trace := trace s @ [SetIsLoading b]\<rparr>"

definition setError :: "string \<Rightarrow> component \<Rightarrow> component" where
  "setError msg s = s\<lparr>error := msg, trace := trace s @ [SetError msg]\<rparr>"

definition setCurrentBookingData :: "booking_data option \<Rightarrow> component \<Rightarrow> component" where
  "setCurrentBookingData b s =
     s\<lparr>currentBookingData := b, trace := trace s @ [SetCurrentBookingData b]\<rparr>"

definition setIsBookingDialogOpen :: "bool \<Rightarrow> component \<Rightarrow> component" where
  "setIsBookingDialogOpen b s =
     s\<lparr>isBookingDialogOpen := b, trace := trace s @ [SetIsBookingDialogOpen b]\<rparr>"

text \<open>An effect that changes nothing of the state but is part of the trace.\<close>

definition note_effect :: "effect \<Rightarrow> component \<Rightarrow> component" where
  "note_effect x s = s\<lparr>trace := trace s @ [x]\<rparr>"

subsection \<open>Validation (lines 58-80)\<close>

text \<open>
  \<^verbatim>\<open>!formData.from\<close> on a string is true exactly for the empty string. The translation
  function \<^verbatim>\<open>t\<close> of the language context is a parameter.
\<close>

definition validateForm :: "(string \<Rightarrow> string) \<Rightarrow> component \<Rightarrow> bool \<times> component" where
  "validateForm t s =
     (if fd_from (formData s) = [] then (False, setError (t ''selectDepartureError'') s)
      else if fd_to (formData s) = [] then (False, setError (t ''selectDestinationError'') s)
      else if fd_from (formData s) = fd_to (formData s)
        then (False, setError (t ''differentCitiesError'') s)
      else if fd_date (formData s) = [] then (False, setError (t ''selectDateError'') s)
      else if fd_passengers (formData s) = []
        then (False, setError (t ''selectPassengersError'') s)
      else (True, s))"




subsection \<open>JavaScript built-ins used by the handlers\<close>

text \<open>
  \<^verbatim>\<open>String.prototype.includes\<close>: the argument occurs as a contiguous substring.
\<close>

fun str_includes :: "string \<Rightarrow> string \<Rightarrow> bool" where
  "str_includes [] sub = (sub = [])"
| "str_includes (c # cs) sub = (prefix sub (c # cs) \<or> str_includes cs sub)"

text \<open>
  \<^verbatim>\<open>parseInt\<close> with no radix: leading white space is skipped, a sign is read, a
  \<^verbatim>\<open>0x\<close> prefix selects radix 16, then the longest run of digits of the radix is
  read; with no digit the result is \<^verbatim>\<open>NaN\<close> (\<open>None\<close>). Strings are byte strings
  here, the UTF-8 form of the JavaScript string, so a white space character is one to
  three bytes long: the ASCII ones (tab, line feed, vertical tab, form feed, carriage
  return, space), U+00A0, U+1680, U+2000 to U+200A, U+2028, U+2029, U+202F, U+205F,
  U+3000 and U+FEFF. The result is the exact integer the digits denote; JavaScript
  returns the nearest double, which is that integer up to \<open>2^53\<close> and differs from it
  for some longer digit strings.
\<close>

fun space_width :: "nat list \<Rightarrow> nat" where
  "space_width [] = 0"
| "space_width (a # rest) =
     (if a = 32 \<or> (9 \<le> a \<and> a \<le> 13) then 1
      else if a = 194 \<and> take 1 rest = [160] then 2
      else if a = 225 \<and> take 2 rest = [154, 128] then 3
      else if a = 226 \<and> take 1 rest = [128] \<and>
              (case drop 1 rest of
                 [] \<Rightarrow> False
               | c # _ \<Rightarrow> (128 \<le> c \<and> c \<le> 138) \<or> c = 168 \<or> c = 169 \<or> c = 175) then 3
      else if a = 226 \<and> take 2 rest = [129, 159] then 3
      else if a = 227 \<and> take 2 rest = [128, 128] then 3
      else if a = 239 \<and> take 2 rest = [187, 191] then 3
      else 0)"

function skip_space :: "string \<Rightarrow> string" where
  "skip_space s =
     (if space_width (map of_char (take 3 s)) = 0 then s
      else skip_space (drop (space_width (map of_char (take 3 s))) s))"
  by pat_completeness auto
termination
  by (relation "measure length") (auto simp: neq_Nil_conv intro!: diff_less)

definition digit_val :: "char \<Rightarrow> nat option" where
  "digit_val c =
     (let n = (of_char c :: nat) in
      if 48 \<le> n \<and> n \<le> 57 then Some (n - 48)
      else if 97 \<le> n \<and> n \<le> 122 then Some (n - 87)
      else if 65 \<le> n \<and> n \<le> 90 then Some (n - 55)
      else None)"

fun digits_prefix :: "nat \<Rightarrow> string \<Rightarrow> nat list" where
  "digits_prefix r [] = []"
| "digits_prefix r (c # cs) =
     (case digit_val c of
        None \<Rightarrow> []
      | Some d \<Rightarrow> (if d < r then d # digits_prefix r cs else []))"

definition digits_value :: "nat \<Rightarrow> nat list \<Rightarrow> nat" where
  "digits_value r ds = foldl (\<lambda>acc d. acc * r + d) 0 ds"

definition parseInt :: "string \<Rightarrow> int option" where
  "parseInt str =
     (let s1 = skip_space str;
          neg = (take 1 s1 = ''-'');
          s2 = (if take 1 s1 = ''+'' \<or> take 1 s1 = ''-'' then drop 1 s1 else s1);
          hex = (take 2 s2 = ''0x'' \<or> take 2 s2 = ''0X'');
          r = (if hex then 16 else 10);
          s3 = (if hex then drop 2 s2 else s2);
          ds = digits_prefix r s3
      in if ds = [] then None
         else Some ((if neg then - 1 else 1) * int (digits_value r ds)))"

subsection \<open>The scroll manager\<close>

text \<open>
  Modelled from the spec: \<^verbatim>\<open>createInstance\<close> of the missing scroll manager module.
  A new manager is \<open>Unlocked\<close>; construction does not touch the document.
\<close>

definition createInstance :: manager where
  "createInstance = \<lparr>lock = Unlocked, inert = False\<rparr>"

text \<open>
  Modelled from the spec: \<^verbatim>\<open>disableScroll\<close> of the missing scroll manager module.
  \<open>Unlocked\<close> becomes \<open>Locked\<close>; on a \<open>Locked\<close> manager nothing changes; on a
  disposed manager every method is a no-op.
\<close>

definition disableScroll :: "manager \<Rightarrow> manager" where
  "disableScroll m = (if inert m then m else m\<lparr>lock := Locked\<rparr>)"

text \<open>
  Modelled from the spec: \<^verbatim>\<open>enableScroll\<close> of the missing scroll manager module.
  \<open>Locked\<close> becomes \<open>Unlocked\<close>; on an \<open>Unlocked\<close> manager nothing changes.
\<close>

definition enableScroll :: "manager \<Rightarrow> manager" where
  "enableScroll m = (if inert m then m else m\<lparr>lock := Unlocked\<rparr>)"

text \<open>
  Modelled from the spec: \<^verbatim>\<open>cleanup\<close> of the missing scroll manager module, the
  terminal operation: it forces \<^verbatim>\<open>enableScroll\<close> if the manager is \<open>Locked\<close> and
  marks the manager inert for good.
\<close>

definition cleanup :: "manager \<Rightarrow> manager" where
  "cleanup m =
     (if inert m then m
      else (if lock m = Locked then enableScroll m else m)\<lparr>inert := True\<rparr>)"

text \<open>
  The call of \<^verbatim>\<open>openBookingDialog\<close>, whose source is missing and which the
  specification does not word: it performs on its manager the methods the environment
  names, each as modelled above. On a disposed manager each of them is a no-op, and so
  is the call.
\<close>

fun perform :: "manager_call \<Rightarrow> manager \<Rightarrow> manager" where
  "perform CallDisableScroll m = disableScroll m"
| "perform CallEnableScroll m = enableScroll m"
| "perform CallCleanup m = cleanup m"

definition openBookingDialog :: "manager_call list \<Rightarrow> manager \<Rightarrow> manager" where
  "openBookingDialog calls m = fold perform calls m"

text \<open>
  A method call on the manager at an address. The handlers only call methods on an
  address they read from the ref, which always points into the store (\<open>ref_valid\<close>
  below); on an address outside the store the update changes nothing.
\<close>

definition on_manager :: "(manager \<Rightarrow> manager) \<Rightarrow> nat \<Rightarrow> component \<Rightarrow> component" where
  "on_manager f a s = s\<lparr>managers := (managers s)[a := f (managers s ! a)]\<rparr>"

definition call_cleanup :: "nat \<Rightarrow> component \<Rightarrow> component" where
  "call_cleanup a s = (on_manager cleanup a s)\<lparr>trace := trace s @ [Cleanup a]\<rparr>"

definition call_disableScroll :: "nat \<Rightarrow> component \<Rightarrow> component" where
  "call_disableScroll a s =
     (on_manager disableScroll a s)\<lparr>trace := trace s @ [DisableScroll a]\<rparr>"

definition call_enableScroll :: "nat \<Rightarrow> component \<Rightarrow> component" where
  "call_enableScroll a s =
     (on_manager enableScroll a s)\<lparr>trace := trace s @ [EnableScroll a]\<rparr>"

definition call_openBookingDialog ::
    "manager_call list \<Rightarrow> nat \<Rightarrow> booking_data \<Rightarrow> component \<Rightarrow> component" where
  "call_openBookingDialog calls a b s =
     (on_manager (openBookingDialog calls) a s)\<lparr>trace := trace s @ [OpenBookingDialog a b]\<rparr>"

text \<open>
  Line 115, \<^verbatim>\<open>scrollManagerRef.current = SafariYetuScrollManager.createInstance()\<close>:
  the new manager gets the next free address and the ref points to it.
\<close>

definition new_manager :: "component \<Rightarrow> component" where
  "new_manager s =
     s\<lparr>scrollManagerRef := Some (length (managers s)),
       managers := managers s @ [createInstance],
       trace := trace s @ [CreateInstance (length (managers s))]\<rparr>"

subsection \<open>The submit handler (lines 82-165)\<close>

text \<open>Lines 98-102: the request built from the form.\<close>

definition bookingData :: "form_data \<Rightarrow> booking_data" where
  "bookingData f =
     \<lparr>origin = fd_from f, destination = fd_to f, departureDate = fd_date f,
      passengersCount = parseInt (fd_passengers f)\<rparr>"

text \<open>Lines 103-111: the closure callback handed to the widget.\<close>

definition onClose :: "component \<Rightarrow> component" where
  "onClose s =
     setError [] (setCurrentBookingData None (setIsLoading False
       (setIsBookingDialogOpen False s)))"

text \<open>Lines 91-94: clean up any existing scroll manager.\<close>

definition cleanup_existing :: "component \<Rightarrow> component" where
  "cleanup_existing s =
     (case scrollManagerRef s of None \<Rightarrow> s | Some a \<Rightarrow> call_cleanup a s)"

text \<open>Lines 98-118: build the request, create the new manager, set the states.\<close>

definition prepare_session :: "component \<Rightarrow> component" where
  "prepare_session s =
     setCurrentBookingData (Some (bookingData (formData s)))
       (setIsBookingDialogOpen True (setIsLoading True (new_manager s)))"

definition loading_message :: string where
  "loading_message = ''SafariYetu booking system is loading. Please try again in a moment.''"

definition null_message :: string where
  "null_message = ''Cannot read properties of null''"

text \<open>
  Lines 120-145, the rest of the \<^verbatim>\<open>try\<close> block. \<open>Inl\<close> is a thrown value: the
  \<^verbatim>\<open>Error\<close> of line 140, or what \<^verbatim>\<open>openBookingDialog\<close> rejects with. A method
  call through an empty ref throws a \<^verbatim>\<open>TypeError\<close>;
  after \<open>prepare_session\<close> the ref is never empty. In the development branch the timer
  callback is \<open>mock_timeout\<close> below. The request is the one of line 98, read again from
  the form, which no step in between changes.
\<close>

definition invoke_widget :: "env \<Rightarrow> component \<Rightarrow> (thrown + unit) \<times> component" where
  "invoke_widget e s =
     (if \<not> safariplus_defined e then
        (if node_env e = ''development'' then
           (case scrollManagerRef s of
              None \<Rightarrow> (Inl (Value (Text null_message)), s)
            | Some a \<Rightarrow>
                (Inr (), note_effect (SetTimeout 1500) (call_disableScroll a s)))
         else (Inl (Value (Text loading_message)), s))
      else
        (case scrollManagerRef s of
           None \<Rightarrow> (Inl (Value (Text null_message)), s)
         | Some a \<Rightarrow>
             (case open_result e of
                Resolves \<Rightarrow>
                  (Inr (), call_openBookingDialog (dialog_calls e) a (bookingData (formData s)) s)
              | Rejects x \<Rightarrow>
                  (Inl x, call_openBookingDialog (dialog_calls e) a (bookingData (formData s)) s))))"

text \<open>
  Lines 150-154: the argument of \<^verbatim>\<open>setError\<close>, or \<open>None\<close> where the evaluation of
  the condition throws. \<^verbatim>\<open>error.message && error.message.includes('loading')\<close> holds
  for a non-empty string that contains \<^verbatim>\<open>loading\<close>; the message is then shown (the
  fallback text after \<^verbatim>\<open>||\<close> is for an empty message).
\<close>

fun shown_message :: "thrown \<Rightarrow> string option" where
  "shown_message Nullish = None"
| "shown_message (Value Absent) = Some []"
| "shown_message (Value (Text msg)) =
     Some (if msg \<noteq> [] \<and> str_includes msg ''loading''
           then (if msg \<noteq> [] then msg else ''Unable to load booking system. Please try again.'')
           else [])"
| "shown_message (Value NotText) = None"

text \<open>
  Lines 147-164. Where line 150 throws, the rest of the block does not run: the
  \<^verbatim>\<open>TypeError\<close> leaves the handler uncaught and the state is as it was.
\<close>

definition catch_block :: "thrown \<Rightarrow> component \<Rightarrow> component" where
  "catch_block x s =
     (case shown_message x of
        None \<Rightarrow> note_effect UncaughtTypeError s
      | Some shown \<Rightarrow>
          (let s1 = setError shown s;
               s2 = (case scrollManagerRef s1 of
                       None \<Rightarrow> s1
                     | Some a \<Rightarrow> (call_cleanup a s1)\<lparr>scrollManagerRef := None\<rparr>)
           in setCurrentBookingData None (setIsBookingDialogOpen False (setIsLoading False s2))))"

text \<open>
  The handler. Where \<^verbatim>\<open>openBookingDialog\<close> rejects, the \<^verbatim>\<open>catch\<close> block runs at
  once; \<open>Resolves\<close> also stands for a promise that is still pending, since nothing
  follows the \<^verbatim>\<open>await\<close> inside \<^verbatim>\<open>try\<close>.
\<close>

definition handleSubmit :: "(string \<Rightarrow> string) \<Rightarrow> env \<Rightarrow> component \<Rightarrow> component" where
  "handleSubmit t e s =
     (case validateForm t (setError [] s) of
        (False, s1) \<Rightarrow> s1
      | (True, s1) \<Rightarrow>
          (case invoke_widget e (prepare_session (cleanup_existing s1)) of
             (Inl x, s2) \<Rightarrow> catch_block x s2
           | (Inr u, s2) \<Rightarrow> s2))"

subsection \<open>The other handlers\<close>

text \<open>Lines 126-137: the timer callback of the development mock.\<close>

definition mock_timeout :: "component \<Rightarrow> component" where
  "mock_timeout s =
     (let s0 = note_effect Alert s;
          s1 = (case scrollManagerRef s0 of
                  None \<Rightarrow> s0
                | Some a \<Rightarrow> call_cleanup a (call_enableScroll a s0))
      in setCurrentBookingData None (setIsBookingDialogOpen False (setIsLoading False s1)))"

text \<open>Lines 39-46: the effect cleanup that runs when the component unmounts.\<close>

definition unmount :: "component \<Rightarrow> component" where
  "unmount s =
     (case scrollManagerRef s of
        None \<Rightarrow> s
      | Some a \<Rightarrow> (call_cleanup a s)\<lparr>scrollManagerRef := None\<rparr>)"

text \<open>
  Lines 48-56. The four inputs carry the names of the four fields; a change event of
  another name would add a property that nothing reads.
\<close>

definition set_field :: "string \<Rightarrow> string \<Rightarrow> form_data \<Rightarrow> form_data" where
  "set_field name v f =
     (if name = ''from'' then f\<lparr>fd_from := v\<rparr>
      else if name = ''to'' then f\<lparr>fd_to := v\<rparr>
      else if name = ''date'' then f\<lparr>fd_date := v\<rparr>
      else if name = ''passengers'' then f\<lparr>fd_passengers := v\<rparr>
      else f)"

definition handleInputChange :: "string \<Rightarrow> string \<Rightarrow> component \<Rightarrow> component" where
  "handleInputChange name v s =
     (let s1 = setFormData (set_field name v (formData s)) s
      in if error s \<noteq> [] then setError [] s1 else s1)"

text \<open>Lines 314-322: a click on one of the popular routes; \<open>today\<close> is the current date.\<close>

definition route_click :: "string \<Rightarrow> string \<Rightarrow> string \<Rightarrow> component \<Rightarrow> component" where
  "route_click f t today s =
     setError [] (setFormData ((formData s)\<lparr>fd_from := f, fd_to := t, fd_date := today\<rparr>) s)"

text \<open>
  Lines 20-36: the URL parameters \<^verbatim>\<open>from\<close> and \<^verbatim>\<open>to\<close> (\<open>None\<close> for
  \<^verbatim>\<open>null\<close>) pre-fill the form.
\<close>

definition or_empty :: "string option \<Rightarrow> string" where
  "or_empty p = (case p of None \<Rightarrow> [] | Some v \<Rightarrow> v)"

definition prefill :: "string option \<Rightarrow> string option \<Rightarrow> string \<Rightarrow> component \<Rightarrow> component" where
  "prefill fromParam toParam today s =
     (if or_empty fromParam \<noteq> [] \<or> or_empty toParam \<noteq> [] then
        note_effect ReplaceState
          (setFormData ((formData s)\<lparr>fd_from := or_empty fromParam, fd_to := or_empty toParam,
             fd_date := today\<rparr>) s)
      else s)"

text \<open>
  Modelled from the spec: the presence monitor of the missing scroll manager module. When
  it finds that the widget has vanished from the page it performs the same reset as the
  closure callback and releases the manager; on a manager that is already inert it does
  nothing.
\<close>

definition monitor_detects :: "nat \<Rightarrow> component \<Rightarrow> component" where
  "monitor_detects a s =
     (if a < length (managers s) \<and> \<not> inert (managers s ! a)
      then onClose (call_cleanup a s) else s)"

subsection \<open>Runs of the component\<close>

text \<open>
  The state after the first render: lines 8-17. The parent owns
  \<^verbatim>\<open>isBookingDialogOpen\<close>; its value at that moment is a parameter.
\<close>

definition mount :: "bool \<Rightarrow> component" where
  "mount dialog_open =
     \<lparr>formData = \<lparr>fd_from = [], fd_to = [], fd_date = [], fd_passengers = ''1''\<rparr>,
      isLoading = False, error = [], currentBookingData = None, scrollManagerRef = None,
      isBookingDialogOpen = dialog_open, managers = [], trace = []\<rparr>"

text \<open>
  The event loop runs one handler at a time. \<open>Rejected\<close> is a promise of
  \<^verbatim>\<open>openBookingDialog\<close> that rejects after other handlers have run: the
  \<^verbatim>\<open>catch\<close> block then runs on the state of that moment.
\<close>

datatype event =
    Prefill "string option" "string option" string
  | InputChange string string
  | RouteClick string string string
  | Submit env
  | Rejected thrown
  | CloseCallback
  | MonitorDetects nat
  | MockTimeout
  | Unmount

fun step :: "(string \<Rightarrow> string) \<Rightarrow> event \<Rightarrow> component \<Rightarrow> component" where
  "step t (Prefill f d today) s = prefill f d today s"
| "step t (InputChange name v) s = handleInputChange name v s"
| "step t (RouteClick f d today) s = route_click f d today s"
| "step t (Submit e) s = handleSubmit t e s"
| "step t (Rejected x) s = catch_block x s"
| "step t CloseCallback s = onClose s"
| "step t (MonitorDetects a) s = monitor_detects a s"
| "step t MockTimeout s = mock_timeout s"
| "step t Unmount s = unmount s"

definition run :: "(string \<Rightarrow> string) \<Rightarrow> event list \<Rightarrow> component \<Rightarrow> component" where
  "run t evs s = foldl (\<lambda>s ev. step t ev s) s evs"

subsection \<open>Predicates on the state\<close>

text \<open>The number of managers whose scroll lock is on.\<close>

definition locked_count :: "component \<Rightarrow> nat" where
  "locked_count s = length (filter (\<lambda>m. lock m = Locked) (managers s))"

text \<open>A disposed manager is never \<open>Locked\<close>.\<close>

definition sound_manager :: "manager \<Rightarrow> bool" where
  "sound_manager m = (inert m \<longrightarrow> lock m = Unlocked)"

definition ref_valid :: "component \<Rightarrow> bool" where
  "ref_valid s = (\<forall>a. scrollManagerRef s = Some a \<longrightarrow> a < length (managers s))"

text \<open>
  The invariant of the store: the ref points into the store, every manager is sound,
  and every manager the ref does not point to has been disposed of.
\<close>

definition store_inv :: "component \<Rightarrow> bool" where
  "store_inv s =
     (ref_valid s \<and>
      (\<forall>i<length (managers s). sound_manager (managers s ! i)) \<and>
      (\<forall>i<length (managers s). scrollManagerRef s \<noteq> Some i \<longrightarrow> inert (managers s ! i)))"

text \<open>Every manager of the store has been disposed of and is \<open>Unlocked\<close>.\<close>

definition all_released :: "component \<Rightarrow> bool" where
  "all_released s =
     (\<forall>i<length (managers s). inert (managers s ! i) \<and> lock (managers s ! i) = Unlocked)"

text \<open>The user interface part of a reset: not loading, no dialog, no session data.\<close>

definition ui_reset :: "component \<Rightarrow> bool" where
  "ui_reset s = (\<not> isLoading s \<and> \<not> isBookingDialogOpen s \<and> currentBookingData s = None)"

text \<open>
  The reset of the session that owns the manager at address \<open>a\<close>, as the specification
  lists it: loading false, dialog closed, session data cleared, scroll unlocked.
\<close>

definition session_reset :: "nat \<Rightarrow> component \<Rightarrow> bool" where
  "session_reset a s = (ui_reset s \<and> lock (managers s ! a) = Unlocked)"

text \<open>The three sources that can resolve a session.\<close>

datatype source = Callback | Monitor nat | ErrorPath thrown

fun fire :: "source \<Rightarrow> component \<Rightarrow> component" where
  "fire Callback s = onClose s"
| "fire (Monitor a) s = monitor_detects a s"
| "fire (ErrorPath x) s = catch_block x s"

subsection \<open>The trip request of the specification\<close>

text \<open>
  The specification's invariant of a trip request, in its words: origin and destination
  are non-empty and differ, the departure date is a calendar date not before today, the
  passenger count is a positive integer. A calendar date is written
  \<^verbatim>\<open>YYYY-MM-DD\<close>, as the date input and \<^verbatim>\<open>toISOString\<close> write it; today is given
  as year, month and day.
\<close>

definition is_digit :: "char \<Rightarrow> bool" where
  "is_digit c = (48 \<le> (of_char c :: nat) \<and> (of_char c :: nat) \<le> 57)"

definition decimal :: "string \<Rightarrow> nat" where
  "decimal ds = digits_value 10 (map (\<lambda>c. (of_char c :: nat) - 48) ds)"

definition leap_year :: "nat \<Rightarrow> bool" where
  "leap_year y = (y mod 4 = 0 \<and> (y mod 100 \<noteq> 0 \<or> y mod 400 = 0))"

definition days_in_month :: "nat \<Rightarrow> nat \<Rightarrow> nat" where
  "days_in_month y m =
     (if m = 2 then (if leap_year y then 29 else 28)
      else if m = 4 \<or> m = 6 \<or> m = 9 \<or> m = 11 then 30
      else 31)"

definition calendar_date :: "string \<Rightarrow> (nat \<times> nat \<times> nat) option" where
  "calendar_date d =
     (if length d = 10 \<and> d ! 4 = CHR ''-'' \<and> d ! 7 = CHR ''-'' \<and>
         list_all is_digit (take 4 d @ take 2 (drop 5 d) @ drop 8 d)
      then
        (let y = decimal (take 4 d); m = decimal (take 2 (drop 5 d)); dd = decimal (drop 8 d)
         in if 1 \<le> m \<and> m \<le> 12 \<and> 1 \<le> dd \<and> dd \<le> days_in_month y m
            then Some (y, m, dd) else None)
      else None)"

fun date_le :: "nat \<times> nat \<times> nat \<Rightarrow> nat \<times> nat \<times> nat \<Rightarrow> bool" where
  "date_le (y1, m1, d1) (y2, m2, d2) =
     (y1 < y2 \<or> (y1 = y2 \<and> (m1 < m2 \<or> (m1 = m2 \<and> d1 \<le> d2))))"

definition date_from_today :: "nat \<times> nat \<times> nat \<Rightarrow> string \<Rightarrow> bool" where
  "date_from_today today d =
     (case calendar_date d of None \<Rightarrow> False | Some x \<Rightarrow> date_le today x)"

definition positive_count :: "int option \<Rightarrow> bool" where
  "positive_count c = (case c of None \<Rightarrow> False | Some k \<Rightarrow> 0 < k)"

definition trip_request_invariant :: "nat \<times> nat \<times> nat \<Rightarrow> booking_data \<Rightarrow> bool" where
  "trip_request_invariant today r =
     (origin r \<noteq> [] \<and> destination r \<noteq> [] \<and> origin r \<noteq> destination r \<and>
      date_from_today today (departureDate r) \<and> positive_count (passengersCount r))"

text \<open>The form passes validation.\<close>

definition accepted :: "(string \<Rightarrow> string) \<Rightarrow> component \<Rightarrow> bool" where
  "accepted t s = fst (validateForm t s)"

subsection \<open>Concrete runs\<close>

text \<open>A click on a popular route fills the form.\<close>

definition example_route :: event where
  "example_route = RouteClick ''mwanza'' ''kahama'' ''2030-01-15''"

text \<open>
  An environment that offers the widget, and in which the call of
  \<^verbatim>\<open>openBookingDialog\<close> disables scroll and the dialog opens.
\<close>

definition widget_available :: env where
  "widget_available =
     \<lparr>safariplus_defined = True, node_env = ''production'',
      dialog_calls = [CallDisableScroll], open_result = Resolves\<rparr>"

text \<open>
  The same, but the call of \<^verbatim>\<open>openBookingDialog\<close> calls no method of its manager.
\<close>

definition widget_silent :: env where
  "widget_silent =
     \<lparr>safariplus_defined = True, node_env = ''production'',
      dialog_calls = [], open_result = Resolves\<rparr>"

text \<open>The widget is missing, outside and inside the development environment.\<close>

definition widget_unavailable :: env where
  "widget_unavailable =
     \<lparr>safariplus_defined = False, node_env = ''production'',
      dialog_calls = [], open_result = Resolves\<rparr>"

definition development_mock :: env where
  "development_mock =
     \<lparr>safariplus_defined = False, node_env = ''development'',
      dialog_calls = [], open_result = Resolves\<rparr>"

text \<open>
  The widget is there, and the call of \<^verbatim>\<open>openBookingDialog\<close> fails with an error of
  the widget's own.
\<close>

definition widget_rejecting :: env where
  "widget_rejecting =
     \<lparr>safariplus_defined = True, node_env = ''production'',
      dialog_calls = [], open_result = Rejects (Value (Text ''Error loading seat map''))\<rparr>"

text \<open>
  Change events that put a date of the past and the count \<^verbatim>\<open>0\<close> into the form the
  route click has filled.
\<close>

definition past_date_no_passengers :: "event list" where
  "past_date_no_passengers =
     [example_route, InputChange ''date'' ''2000-01-01'', InputChange ''passengers'' ''0'']"

section \<open>Properties of the handlers\<close>

subsection \<open>The invariant of the store\<close>

text \<open>
  Setters leave the store and the ref alone; a method call changes one manager and keeps
  it sound; a new manager and an emptied ref need every other manager disposed of, which
  the clean-up before them provides. So every handler keeps the invariant.
\<close>

lemmas setter_defs = setFormData_def setIsLoading_def setError_def setCurrentBookingData_def
  setIsBookingDialogOpen_def note_effect_def

lemma store_inv_cong:
  "managers s' = managers s \<Longrightarrow> scrollManagerRef s' = scrollManagerRef s \<Longrightarrow> store_inv s' = store_inv s"
  by (simp add: store_inv_def ref_valid_def)

lemma all_released_cong:
  "managers s' = managers s \<Longrightarrow> all_released s' = all_released s"
  by (simp add: all_released_def)

lemma setters_managers [simp]:
  "managers (setFormData f s) = managers s"
  "managers (setIsLoading b s) = managers s"
  "managers (setError m s) = managers s"
  "managers (setCurrentBookingData d s) = managers s"
  "managers (setIsBookingDialogOpen b s) = managers s"
  "managers (note_effect x s) = managers s"
  by (simp_all add: setter_defs)

lemma setters_ref [simp]:
  "scrollManagerRef (setFormData f s) = scrollManagerRef s"
  "scrollManagerRef (setIsLoading b s) = scrollManagerRef s"
  "scrollManagerRef (setError m s) = scrollManagerRef s"
  "scrollManagerRef (setCurrentBookingData d s) = scrollManagerRef s"
  "scrollManagerRef (setIsBookingDialogOpen b s) = scrollManagerRef s"
  "scrollManagerRef (note_effect x s) = scrollManagerRef s"
  by (simp_all add: setter_defs)

lemma setters_inv [simp]:
  "store_inv (setFormData f s) = store_inv s"
  "store_inv (setIsLoading b s) = store_inv s"
  "store_inv (setError m s) = store_inv s"
  "store_inv (setCurrentBookingData d s) = store_inv s"
  "store_inv (setIsBookingDialogOpen b s) = store_inv s"
  "store_inv (note_effect x s) = store_inv s"
  by (rule store_inv_cong; simp)+

lemma setters_released [simp]:
  "all_released (setFormData f s) = all_released s"
  "all_released (setIsLoading b s) = all_released s"
  "all_released (setError m s) = all_released s"
  "all_released (setCurrentBookingData d s) = all_released s"
  "all_released (setIsBookingDialogOpen b s) = all_released s"
  "all_released (note_effect x s) = all_released s"
  by (rule all_released_cong; simp)+

lemmas call_defs = call_cleanup_def call_disableScroll_def call_enableScroll_def
  call_openBookingDialog_def on_manager_def

lemma calls_ref [simp]:
  "scrollManagerRef (call_cleanup a s) = scrollManagerRef s"
  "scrollManagerRef (call_disableScroll a s) = scrollManagerRef s"
  "scrollManagerRef (call_enableScroll a s) = scrollManagerRef s"
  "scrollManagerRef (call_openBookingDialog cs a b s) = scrollManagerRef s"
  by (simp_all add: call_defs)

lemma calls_length [simp]:
  "length (managers (call_cleanup a s)) = length (managers s)"
  "length (managers (call_disableScroll a s)) = length (managers s)"
  "length (managers (call_enableScroll a s)) = length (managers s)"
  "length (managers (call_openBookingDialog cs a b s)) = length (managers s)"
  by (simp_all add: call_defs)

lemma not_Locked: "(l \<noteq> Locked) = (l = Unlocked)"
  by (cases l) simp_all

lemma manager_methods_sound:
  "sound_manager m \<Longrightarrow> sound_manager (cleanup m)"
  "sound_manager m \<Longrightarrow> sound_manager (disableScroll m)"
  "sound_manager m \<Longrightarrow> sound_manager (enableScroll m)"
  by (simp_all add: sound_manager_def cleanup_def disableScroll_def enableScroll_def not_Locked)

lemma manager_methods_inert:
  "inert m \<Longrightarrow> inert (cleanup m)"
  "inert m \<Longrightarrow> inert (disableScroll m)"
  "inert m \<Longrightarrow> inert (enableScroll m)"
  by (simp_all add: cleanup_def disableScroll_def enableScroll_def)

lemma perform_sound: "sound_manager m \<Longrightarrow> sound_manager (perform c m)"
  by (cases c) (simp_all add: manager_methods_sound)

lemma perform_inert: "inert m \<Longrightarrow> inert (perform c m)"
  by (cases c) (simp_all add: manager_methods_inert)

lemma openBookingDialog_sound: "sound_manager m \<Longrightarrow> sound_manager (openBookingDialog cs m)"
  unfolding openBookingDialog_def
  by (induction cs arbitrary: m) (simp_all add: perform_sound)

lemma openBookingDialog_inert: "inert m \<Longrightarrow> inert (openBookingDialog cs m)"
  unfolding openBookingDialog_def
  by (induction cs arbitrary: m) (simp_all add: perform_inert)

lemma openBookingDialog_disposed: "inert m \<Longrightarrow> openBookingDialog cs m = m"
  unfolding openBookingDialog_def
proof (induction cs arbitrary: m)
  case Nil
  then show ?case by simp
next
  case (Cons c cs)
  have "perform c m = m" using Cons.prems
    by (cases c) (simp_all add: cleanup_def disableScroll_def enableScroll_def)
  then show ?case using Cons by simp
qed

lemma cleanup_released: "sound_manager m \<Longrightarrow> inert (cleanup m) \<and> lock (cleanup m) = Unlocked"
  by (simp add: sound_manager_def cleanup_def enableScroll_def not_Locked)

lemma inv_on_manager:
  assumes inv: "store_inv s"
    and sound: "\<And>m. sound_manager m \<Longrightarrow> sound_manager (f m)"
    and keep: "\<And>m. inert m \<Longrightarrow> inert (f m)"
  shows "store_inv (on_manager f a s)"
proof (cases "a < length (managers s)")
  case False
  then have "on_manager f a s = s" by (simp add: on_manager_def list_update_beyond)
  then show ?thesis using inv by simp
next
  case True
  have nth: "\<And>i. managers (on_manager f a s) ! i =
      (if i = a then f (managers s ! a) else managers s ! i)"
    using True by (simp add: on_manager_def nth_list_update)
  have len: "length (managers (on_manager f a s)) = length (managers s)"
    by (simp add: on_manager_def)
  have ref: "scrollManagerRef (on_manager f a s) = scrollManagerRef s"
    by (simp add: on_manager_def)
  show ?thesis
    unfolding store_inv_def ref_valid_def len ref nth
    using inv True sound [of "managers s ! a"] keep [of "managers s ! a"]
    by (auto simp: store_inv_def ref_valid_def)
qed

lemma inv_call_cleanup: "store_inv s \<Longrightarrow> store_inv (call_cleanup a s)"
  using inv_on_manager [of s cleanup a] store_inv_cong [of "call_cleanup a s" "on_manager cleanup a s"]
  by (simp add: call_cleanup_def manager_methods_sound manager_methods_inert)

lemma inv_call_disableScroll: "store_inv s \<Longrightarrow> store_inv (call_disableScroll a s)"
  using inv_on_manager [of s disableScroll a] store_inv_cong [of "call_disableScroll a s" "on_manager disableScroll a s"]
  by (simp add: call_disableScroll_def manager_methods_sound manager_methods_inert)

lemma inv_call_enableScroll: "store_inv s \<Longrightarrow> store_inv (call_enableScroll a s)"
  using inv_on_manager [of s enableScroll a] store_inv_cong [of "call_enableScroll a s" "on_manager enableScroll a s"]
  by (simp add: call_enableScroll_def manager_methods_sound manager_methods_inert)

lemma inv_call_openBookingDialog: "store_inv s \<Longrightarrow> store_inv (call_openBookingDialog cs a b s)"
  using inv_on_manager [of s "openBookingDialog cs" a]
    store_inv_cong [of "call_openBookingDialog cs a b s" "on_manager (openBookingDialog cs) a s"]
  by (simp add: call_openBookingDialog_def openBookingDialog_sound openBookingDialog_inert)

lemma released_call_cleanup_ref:
  assumes inv: "store_inv s" and ref: "scrollManagerRef s = Some a"
  shows "all_released (call_cleanup a s)"
proof -
  have a: "a < length (managers s)" using inv ref by (simp add: store_inv_def ref_valid_def)
  have nth: "\<And>i. managers (call_cleanup a s) ! i =
      (if i = a then cleanup (managers s ! a) else managers s ! i)"
    using a by (simp add: call_cleanup_def on_manager_def nth_list_update)
  have "sound_manager (managers s ! a)"
    using inv a by (simp add: store_inv_def)
  then have "inert (cleanup (managers s ! a)) \<and> lock (cleanup (managers s ! a)) = Unlocked"
    by (rule cleanup_released)
  then show ?thesis
    unfolding all_released_def nth using inv ref by (auto simp: store_inv_def sound_manager_def)
qed

lemma released_no_ref:
  "store_inv s \<Longrightarrow> scrollManagerRef s = None \<Longrightarrow> all_released s"
  by (auto simp: store_inv_def all_released_def sound_manager_def)

lemma released_cleanup_existing: "store_inv s \<Longrightarrow> all_released (cleanup_existing s)"
  by (simp add: cleanup_existing_def released_call_cleanup_ref released_no_ref split: option.splits)

lemma inv_new_manager: "all_released s \<Longrightarrow> store_inv (new_manager s)"
  by (auto simp: store_inv_def ref_valid_def all_released_def new_manager_def createInstance_def nth_append sound_manager_def)

lemma inv_clear_ref: "all_released s \<Longrightarrow> store_inv (s\<lparr>scrollManagerRef := None\<rparr>)"
  by (auto simp: store_inv_def ref_valid_def all_released_def sound_manager_def)

lemma released_clear_ref [simp]: "all_released (s\<lparr>scrollManagerRef := None\<rparr>) = all_released s"
  by (simp add: all_released_def)

lemma inv_prepare_session: "all_released s \<Longrightarrow> store_inv (prepare_session s)"
  by (simp add: prepare_session_def inv_new_manager)

lemma inv_invoke_widget: "store_inv s \<Longrightarrow> store_inv (snd (invoke_widget e s))"
  by (simp add: invoke_widget_def inv_call_disableScroll inv_call_openBookingDialog split: option.splits open_result.splits)

lemma inv_catch_block: "store_inv s \<Longrightarrow> store_inv (catch_block x s)"
  by (auto simp: catch_block_def Let_def inv_clear_ref released_call_cleanup_ref split: option.splits)

lemma released_catch_block:
  "store_inv s \<Longrightarrow> shown_message x = Some shown \<Longrightarrow> all_released (catch_block x s)"
  by (auto simp: catch_block_def Let_def released_call_cleanup_ref released_no_ref split: option.splits)

lemma inv_validateForm: "store_inv (snd (validateForm t s)) = store_inv s"
  by (simp add: validateForm_def)

lemma inv_handleSubmit: "store_inv s \<Longrightarrow> store_inv (handleSubmit t e s)"
proof -
  assume inv: "store_inv s"
  obtain ok s1 where v: "validateForm t (setError [] s) = (ok, s1)" by (cases "validateForm t (setError [] s)")
  then have s1: "store_inv s1" using inv inv_validateForm [of t "setError [] s"] by simp
  show ?thesis
  proof (cases ok)
    case False
    then show ?thesis using v s1 by (simp add: handleSubmit_def)
  next
    case True
    let ?p = "prepare_session (cleanup_existing s1)"
    have p: "store_inv ?p" using s1 by (simp add: inv_prepare_session released_cleanup_existing)
    obtain r s2 where w: "invoke_widget e ?p = (r, s2)" by (cases "invoke_widget e ?p")
    then have s2: "store_inv s2" using inv_invoke_widget [OF p, of e] by simp
    show ?thesis using True v w s2 by (cases r) (simp_all add: handleSubmit_def inv_catch_block)
  qed
qed

lemma inv_onClose: "store_inv (onClose s) = store_inv s"
  by (simp add: onClose_def)

lemma inv_mock_timeout: "store_inv s \<Longrightarrow> store_inv (mock_timeout s)"
  by (simp add: mock_timeout_def Let_def inv_call_cleanup inv_call_enableScroll split: option.splits)

lemma inv_unmount: "store_inv s \<Longrightarrow> store_inv (unmount s)"
  by (simp add: unmount_def inv_clear_ref released_call_cleanup_ref split: option.splits)

lemma inv_monitor_detects: "store_inv s \<Longrightarrow> store_inv (monitor_detects a s)"
  by (simp add: monitor_detects_def inv_onClose inv_call_cleanup)

lemma inv_handleInputChange: "store_inv (handleInputChange n v s) = store_inv s"
  by (simp add: handleInputChange_def Let_def)

lemma inv_route_click: "store_inv (route_click f d today s) = store_inv s"
  by (simp add: route_click_def)

lemma inv_prefill: "store_inv (prefill f d today s) = store_inv s"
  by (simp add: prefill_def)

lemma inv_step: "store_inv s \<Longrightarrow> store_inv (step t ev s)"
  by (cases ev) (simp_all add: inv_prefill inv_handleInputChange inv_route_click inv_handleSubmit
      inv_catch_block inv_onClose inv_monitor_detects inv_mock_timeout inv_unmount)

lemma inv_mount: "store_inv (mount b)"
  by (simp add: store_inv_def ref_valid_def mount_def)

lemma inv_run: "store_inv s \<Longrightarrow> store_inv (run t evs s)"
  unfolding run_def by (induction evs arbitrary: s) (simp_all add: inv_step)

lemma inv_reachable: "store_inv (run t evs (mount b))"
  by (simp add: inv_run inv_mount)

lemma filter_at_most_one:
  assumes "\<forall>i<length xs. i \<noteq> a \<longrightarrow> \<not> P (xs ! i)"
  shows "length (filter P xs) \<le> 1"
proof -
  have "{i. i < length xs \<and> P (xs ! i)} \<subseteq> {a}" using assms by auto
  then have "card {i. i < length xs \<and> P (xs ! i)} \<le> card {a}"
    by (intro card_mono) auto
  then show ?thesis by (simp add: length_filter_conv_card)
qed

lemma inv_locked_count: "store_inv s \<Longrightarrow> locked_count s \<le> 1"
proof -
  assume inv: "store_inv s"
  show ?thesis
  proof (cases "scrollManagerRef s")
    case None
    then have "\<forall>i<length (managers s). i \<noteq> 0 \<longrightarrow> \<not> lock (managers s ! i) = Locked"
      using inv by (auto simp: store_inv_def sound_manager_def)
    then show ?thesis unfolding locked_count_def by (rule filter_at_most_one)
  next
    case (Some a)
    then have "\<forall>i<length (managers s). i \<noteq> a \<longrightarrow> \<not> lock (managers s ! i) = Locked"
      using inv by (auto simp: store_inv_def sound_manager_def)
    then show ?thesis unfolding locked_count_def by (rule filter_at_most_one)
  qed
qed

lemma released_locked_count: "all_released s \<Longrightarrow> locked_count s = 0"
  by (auto simp: all_released_def locked_count_def filter_empty_conv in_set_conv_nth)

subsection \<open>Accepted forms and the trace of a submission\<close>

lemma accepted_setError [simp]: "accepted t (setError m s) = accepted t s"
  by (simp add: accepted_def validateForm_def setter_defs)

lemma accepted_iff:
  "accepted t s = (fd_from (formData s) \<noteq> [] \<and> fd_to (formData s) \<noteq> [] \<and>
     fd_from (formData s) \<noteq> fd_to (formData s) \<and> fd_date (formData s) \<noteq> [] \<and>
     fd_passengers (formData s) \<noteq> [])"
  by (simp add: accepted_def validateForm_def)

lemma validateForm_accepted: "accepted t s \<Longrightarrow> validateForm t s = (True, s)"
  by (simp add: accepted_iff validateForm_def)

lemma handleSubmit_accepted:
  "accepted t s \<Longrightarrow> handleSubmit t e s =
     (case invoke_widget e (prepare_session (cleanup_existing (setError [] s))) of
        (Inl m, s2) \<Rightarrow> catch_block m s2
      | (Inr u, s2) \<Rightarrow> s2)"
  by (simp add: handleSubmit_def validateForm_accepted)

lemma new_manager_unlocked: "all_released s \<Longrightarrow> locked_count (new_manager s) = 0"
  by (auto simp: all_released_def locked_count_def new_manager_def createInstance_def
      filter_empty_conv in_set_conv_nth)

lemma locked_count_cong: "managers s' = managers s \<Longrightarrow> locked_count s' = locked_count s"
  by (simp add: locked_count_def)

lemma prepare_session_unlocked: "all_released s \<Longrightarrow> locked_count (prepare_session s) = 0"
  using locked_count_cong [of "prepare_session s" "new_manager s"]
  by (simp add: prepare_session_def new_manager_unlocked)

lemma trace_cleanup_existing:
  "scrollManagerRef s = Some a \<Longrightarrow> trace (cleanup_existing s) = trace s @ [Cleanup a]"
  by (simp add: cleanup_existing_def call_defs)

lemma trace_prepare_session:
  "trace (prepare_session s) = trace s @
     [CreateInstance (length (managers s)), SetIsLoading True, SetIsBookingDialogOpen True,
      SetCurrentBookingData (Some (bookingData (formData s)))]"
  by (simp add: prepare_session_def new_manager_def setter_defs)

lemma trace_invoke_widget: "\<exists>r. trace (snd (invoke_widget e s)) = trace s @ r"
  by (simp add: invoke_widget_def call_defs setter_defs split: option.splits open_result.splits)

lemma trace_catch_block: "\<exists>r. trace (catch_block x s) = trace s @ r"
  by (simp add: catch_block_def Let_def call_defs setter_defs split: option.splits)

lemma trace_after_prepare:
  "\<exists>r. trace (case invoke_widget e p of (Inl m, s2) \<Rightarrow> catch_block m s2 | (Inr u, s2) \<Rightarrow> s2)
      = trace p @ r"
proof -
  obtain x s2 where w: "invoke_widget e p = (x, s2)" by (cases "invoke_widget e p")
  obtain r1 where r1: "trace s2 = trace p @ r1" using trace_invoke_widget [of e p] w by auto
  show ?thesis
  proof (cases x)
    case (Inl m)
    obtain r2 where "trace (catch_block m s2) = trace s2 @ r2" using trace_catch_block by blast
    then show ?thesis using w Inl r1 by simp
  next
    case (Inr u)
    then show ?thesis using w r1 by simp
  qed
qed

subsection \<open>The example runs, evaluated\<close>

lemmas handler_defs = run_def handleSubmit_def validateForm_def cleanup_existing_def
  prepare_session_def invoke_widget_def catch_block_def onClose_def mock_timeout_def
  unmount_def handleInputChange_def route_click_def prefill_def monitor_detects_def
  new_manager_def bookingData_def mount_def set_field_def

lemmas manager_defs = createInstance_def cleanup_def disableScroll_def enableScroll_def
  openBookingDialog_def

declare skip_space.simps [simp del]

lemma skip_space_none: "space_width (map of_char (take 3 s)) = 0 \<Longrightarrow> skip_space s = s"
  by (subst skip_space.simps) simp

lemma parseInt_1: "parseInt ''1'' = Some 1"
  by (simp add: parseInt_def skip_space_none digit_val_def digits_value_def)

lemma example_open:
  "run (\<lambda>k. k) [example_route, Submit widget_available] (mount False) =
     \<lparr>formData = \<lparr>fd_from = ''mwanza'', fd_to = ''kahama'', fd_date = ''2030-01-15'',
         fd_passengers = ''1''\<rparr>,
      isLoading = True, error = [],
      currentBookingData = Some \<lparr>origin = ''mwanza'', destination = ''kahama'',
         departureDate = ''2030-01-15'', passengersCount = Some 1\<rparr>,
      scrollManagerRef = Some 0, isBookingDialogOpen = True,
      managers = [\<lparr>lock = Locked, inert = False\<rparr>],
      trace = [SetFormData \<lparr>fd_from = ''mwanza'', fd_to = ''kahama'', fd_date = ''2030-01-15'',
         fd_passengers = ''1''\<rparr>, SetError [], SetError [], CreateInstance 0, SetIsLoading True,
         SetIsBookingDialogOpen True,
         SetCurrentBookingData (Some \<lparr>origin = ''mwanza'', destination = ''kahama'',
           departureDate = ''2030-01-15'', passengersCount = Some 1\<rparr>),
         OpenBookingDialog 0 \<lparr>origin = ''mwanza'', destination = ''kahama'',
           departureDate = ''2030-01-15'', passengersCount = Some 1\<rparr>]\<rparr>"
  by (simp add: example_route_def widget_available_def handler_defs manager_defs call_defs
      setter_defs parseInt_1)

subsection \<open>The state after each step of the submit handler\<close>

lemma prepare_session_fields:
  "isLoading (prepare_session s)"
  "isBookingDialogOpen (prepare_session s)"
  "currentBookingData (prepare_session s) = Some (bookingData (formData s))"
  "scrollManagerRef (prepare_session s) = Some (length (managers s))"
  "managers (prepare_session s) = managers s @ [createInstance]"
  "formData (prepare_session s) = formData s"
  "error (prepare_session s) = error s"
  by (simp_all add: prepare_session_def new_manager_def setter_defs)

lemma cleanup_existing_fields:
  "isLoading (cleanup_existing s) = isLoading s"
  "isBookingDialogOpen (cleanup_existing s) = isBookingDialogOpen s"
  "currentBookingData (cleanup_existing s) = currentBookingData s"
  "scrollManagerRef (cleanup_existing s) = scrollManagerRef s"
  "length (managers (cleanup_existing s)) = length (managers s)"
  "formData (cleanup_existing s) = formData s"
  "error (cleanup_existing s) = error s"
  by (simp_all add: cleanup_existing_def call_defs split: option.splits)

lemma catch_block_fields:
  assumes "shown_message x = Some shown"
  shows "isLoading (catch_block x s) = False"
    and "isBookingDialogOpen (catch_block x s) = False"
    and "currentBookingData (catch_block x s) = None"
    and "scrollManagerRef (catch_block x s) = None"
    and "error (catch_block x s) = shown"
  using assms
  by (simp_all add: catch_block_def Let_def call_defs setter_defs split: option.splits)

lemma catch_block_keeps:
  "length (managers (catch_block x s)) = length (managers s)"
  "formData (catch_block x s) = formData s"
  by (simp_all add: catch_block_def Let_def call_defs setter_defs split: option.splits)

lemma catch_block_aborts:
  "shown_message x = None \<Longrightarrow> catch_block x s = note_effect UncaughtTypeError s"
  by (simp add: catch_block_def)

lemma trace_catch_block_ref:
  "shown_message x = Some shown \<Longrightarrow> scrollManagerRef s = Some a \<Longrightarrow>
   trace (catch_block x s) = trace s @
     [SetError shown, Cleanup a, SetIsLoading False, SetIsBookingDialogOpen False,
      SetCurrentBookingData None]"
  by (simp add: catch_block_def Let_def call_defs setter_defs)

lemma shown_loading_message:
  "shown_message (Value (Text loading_message)) = Some loading_message"
  by (simp add: loading_message_def)

lemma loading_message_nonempty: "loading_message \<noteq> []"
  by (simp add: loading_message_def)

lemma invoke_widget_unavailable:
  "\<not> safariplus_defined e \<Longrightarrow> node_env e \<noteq> ''development'' \<Longrightarrow>
   invoke_widget e s = (Inl (Value (Text loading_message)), s)"
  by (simp add: invoke_widget_def)

lemma inv_prepared: "store_inv s \<Longrightarrow> store_inv (prepare_session (cleanup_existing (setError m s)))"
  by (simp add: inv_prepare_session released_cleanup_existing)

lemma example_filled:
  "run (\<lambda>k. k) [example_route] (mount False) =
     \<lparr>formData = \<lparr>fd_from = ''mwanza'', fd_to = ''kahama'', fd_date = ''2030-01-15'',
         fd_passengers = ''1''\<rparr>,
      isLoading = False, error = [], currentBookingData = None,
      scrollManagerRef = None, isBookingDialogOpen = False, managers = [],
      trace = [SetFormData \<lparr>fd_from = ''mwanza'', fd_to = ''kahama'', fd_date = ''2030-01-15'',
         fd_passengers = ''1''\<rparr>, SetError []]\<rparr>"
  by (simp add: example_route_def handler_defs setter_defs)

lemma validateForm_rejected:
  "\<not> accepted t s \<Longrightarrow>
   \<exists>key. validateForm t s = (False, setError (t key) s) \<and>
     (fd_from (formData s) = [] \<longrightarrow> key = ''selectDepartureError'')"
  by (auto simp: accepted_def validateForm_def split: if_splits)

lemma createInstance_fields: "lock createInstance = Unlocked" "\<not> inert createInstance"
  by (simp_all add: createInstance_def)

lemma prepared_nth_new:
  "managers (prepare_session (cleanup_existing s)) ! length (managers s) = createInstance"
  using nth_append_length [of "managers (cleanup_existing s)" createInstance "[]"]
  by (simp add: prepare_session_fields cleanup_existing_fields)

lemma prepared_nth_old:
  "i < length (managers s) \<Longrightarrow>
   managers (prepare_session (cleanup_existing s)) ! i = managers (cleanup_existing s) ! i"
  by (simp add: prepare_session_fields cleanup_existing_fields nth_append)

lemma trace_prepared:
  "trace (prepare_session (cleanup_existing (setError [] s))) =
     trace s @ [SetError []] @ (case scrollManagerRef s of None \<Rightarrow> [] | Some a \<Rightarrow> [Cleanup a]) @
       [CreateInstance (length (managers s)), SetIsLoading True, SetIsBookingDialogOpen True,
        SetCurrentBookingData (Some (bookingData (formData s)))]"
  by (simp add: trace_prepare_session cleanup_existing_def call_defs setError_def
      split: option.splits)

lemma invoke_widget_development:
  assumes "\<not> safariplus_defined e" "node_env e = ''development''" "scrollManagerRef s = Some a"
  shows "invoke_widget e s = (Inr (), note_effect (SetTimeout 1500) (call_disableScroll a s))"
  using assms by (simp add: invoke_widget_def)

lemma invoke_widget_available:
  assumes "safariplus_defined e" "scrollManagerRef s = Some a"
  shows "snd (invoke_widget e s) =
    call_openBookingDialog (dialog_calls e) a (bookingData (formData s)) s"
  using assms by (simp add: invoke_widget_def split: open_result.splits)

lemma call_on_new_manager:
  assumes "a < length (managers s)" "managers s ! a = createInstance"
  shows "lock (managers (call_disableScroll a s) ! a) = Locked"
    and "managers (call_openBookingDialog cs a d s) ! a = openBookingDialog cs createInstance"
  using assms
  by (simp_all add: call_defs disableScroll_def createInstance_def)

subsection \<open>The message shown by the catch block\<close>

lemma str_includes_sublist: "str_includes s sub = sublist sub s"
  by (induction s) (simp_all add: sublist_Cons_right)

lemma str_includes_nonempty: "str_includes msg ''loading'' \<Longrightarrow> msg \<noteq> []"
  by (cases msg) simp_all

lemma shown_message_cases:
  "shown_message (Value Absent) = Some []"
  "\<not> str_includes msg ''loading'' \<Longrightarrow> shown_message (Value (Text msg)) = Some []"
  "str_includes msg ''loading'' \<Longrightarrow> shown_message (Value (Text msg)) = Some msg"
  by (auto dest: str_includes_nonempty)

lemma invoke_widget_rejects:
  assumes "safariplus_defined e" "open_result e = Rejects m" "scrollManagerRef s = Some a"
  shows "invoke_widget e s =
    (Inl m, call_openBookingDialog (dialog_calls e) a (bookingData (formData s)) s)"
  using assms by (simp add: invoke_widget_def)

lemma invoke_widget_resolves:
  assumes "safariplus_defined e" "open_result e = Resolves" "scrollManagerRef s = Some a"
  shows "invoke_widget e s =
    (Inr (), call_openBookingDialog (dialog_calls e) a (bookingData (formData s)) s)"
  using assms by (simp add: invoke_widget_def)

lemma handleSubmit_rejects:
  assumes "accepted t s" "safariplus_defined e" "open_result e = Rejects m"
  shows "handleSubmit t e s = catch_block m (handleSubmit t (e\<lparr>open_result := Resolves\<rparr>) s)"
proof -
  let ?p = "prepare_session (cleanup_existing (setError [] s))"
  have ref: "scrollManagerRef ?p = Some (length (managers s))"
    by (simp add: prepare_session_fields cleanup_existing_fields)
  show ?thesis
    using assms
    by (simp add: handleSubmit_accepted invoke_widget_rejects [OF _ _ ref]
        invoke_widget_resolves [OF _ _ ref])
qed

lemma parseInt_0: "parseInt ''0'' = Some 0"
  by (simp add: parseInt_def skip_space_none digit_val_def digits_value_def)

lemma example_past:
  "run (\<lambda>k. k) past_date_no_passengers (mount False) =
     \<lparr>formData = \<lparr>fd_from = ''mwanza'', fd_to = ''kahama'', fd_date = ''2000-01-01'',
         fd_passengers = ''0''\<rparr>,
      isLoading = False, error = [], currentBookingData = None,
      scrollManagerRef = None, isBookingDialogOpen = False, managers = [],
      trace = [SetFormData \<lparr>fd_from = ''mwanza'', fd_to = ''kahama'', fd_date = ''2030-01-15'',
         fd_passengers = ''1''\<rparr>, SetError [],
        SetFormData \<lparr>fd_from = ''mwanza'', fd_to = ''kahama'', fd_date = ''2000-01-01'',
         fd_passengers = ''1''\<rparr>,
        SetFormData \<lparr>fd_from = ''mwanza'', fd_to = ''kahama'', fd_date = ''2000-01-01'',
         fd_passengers = ''0''\<rparr>]\<rparr>"
  by (simp add: past_date_no_passengers_def example_route_def handler_defs setter_defs)

lemma calendar_date_2000: "calendar_date ''2000-01-01'' = Some (2000, 1, 1)"
  by (simp add: calendar_date_def is_digit_def decimal_def digits_value_def days_in_month_def)

lemma trace_submit_available:
  assumes acc: "accepted t s" and av: "safariplus_defined e"
  shows "\<exists>before after. trace (handleSubmit t e s) =
    before @ OpenBookingDialog (length (managers s)) (bookingData (formData s)) # after"
proof -
  let ?p = "prepare_session (cleanup_existing (setError [] s))"
  let ?o = "call_openBookingDialog (dialog_calls e) (length (managers s))
      (bookingData (formData s)) ?p"
  have ref: "scrollManagerRef ?p = Some (length (managers s))"
    by (simp add: prepare_session_fields cleanup_existing_fields)
  have fd: "formData ?p = formData s"
    by (simp add: prepare_session_fields cleanup_existing_fields setError_def)
  have to: "trace ?o = trace ?p @
      [OpenBookingDialog (length (managers s)) (bookingData (formData s))]"
    by (simp add: call_defs)
  show ?thesis
  proof (cases "open_result e")
    case Resolves
    then have "handleSubmit t e s = ?o"
      using acc av by (simp add: handleSubmit_accepted invoke_widget_resolves [OF _ _ ref] fd)
    then show ?thesis using to by auto
  next
    case (Rejects m)
    then have "handleSubmit t e s = catch_block m ?o"
      using acc av by (simp add: handleSubmit_accepted invoke_widget_rejects [OF _ _ ref] fd)
    moreover obtain r where "trace (catch_block m ?o) = trace ?o @ r"
      using trace_catch_block by blast
    ultimately show ?thesis using to by auto
  qed
qed

subsection \<open>Callback, monitor and error path\<close>

lemma onClose_fields:
  "isLoading (onClose s) = False"
  "isBookingDialogOpen (onClose s) = False"
  "currentBookingData (onClose s) = None"
  "error (onClose s) = []"
  "managers (onClose s) = managers s"
  "scrollManagerRef (onClose s) = scrollManagerRef s"
  "formData (onClose s) = formData s"
  "trace (onClose s) = trace s @
     [SetIsBookingDialogOpen False, SetIsLoading False, SetCurrentBookingData None, SetError []]"
  by (simp_all add: onClose_def setter_defs)

lemma onClose_twice:
  "onClose (onClose s) = (onClose s)\<lparr>trace := trace (onClose s) @
     [SetIsBookingDialogOpen False, SetIsLoading False, SetCurrentBookingData None, SetError []]\<rparr>"
  by (simp add: onClose_def setter_defs)

lemma ui_reset_onClose: "ui_reset (onClose s)"
  by (simp add: ui_reset_def onClose_fields)

lemma ui_reset_catch_block: "shown_message x = Some shown \<Longrightarrow> ui_reset (catch_block x s)"
  by (simp add: ui_reset_def catch_block_fields)

lemma ui_reset_catch_block_keeps: "ui_reset s \<Longrightarrow> ui_reset (catch_block x s)"
  by (cases "shown_message x")
    (simp_all add: catch_block_aborts ui_reset_catch_block, simp add: ui_reset_def note_effect_def)

lemma ui_reset_monitor: "ui_reset s \<Longrightarrow> ui_reset (monitor_detects a s)"
  by (simp add: monitor_detects_def ui_reset_onClose)

lemma ui_reset_fire: "ui_reset s \<Longrightarrow> ui_reset (fire src s)"
  by (cases src) (simp_all add: ui_reset_onClose ui_reset_monitor ui_reset_catch_block_keeps)

lemma cleanup_keeps_unlocked: "lock m = Unlocked \<Longrightarrow> lock (cleanup m) = Unlocked"
  by (simp add: cleanup_def)

lemma call_cleanup_keeps_unlocked:
  assumes "i < length (managers s)" "lock (managers s ! i) = Unlocked"
  shows "lock (managers (call_cleanup a s) ! i) = Unlocked"
proof (cases "a < length (managers s)")
  case True
  then have "managers (call_cleanup a s) ! i =
      (if i = a then cleanup (managers s ! a) else managers s ! i)"
    by (simp add: call_defs nth_list_update)
  then show ?thesis using assms by (auto simp: cleanup_keeps_unlocked)
next
  case False
  then have "managers (call_cleanup a s) = managers s"
    by (simp add: call_defs list_update_beyond)
  then show ?thesis using assms by simp
qed

lemma length_managers_fire: "length (managers (fire src s)) = length (managers s)"
  by (cases src) (simp_all add: onClose_fields catch_block_keeps monitor_detects_def)

lemma fire_keeps_unlocked:
  assumes i: "i < length (managers s)" and u: "lock (managers s ! i) = Unlocked"
  shows "lock (managers (fire src s) ! i) = Unlocked"
proof (cases src)
  case Callback
  then show ?thesis using u by (simp add: onClose_fields)
next
  case (Monitor a)
  then show ?thesis
    using u call_cleanup_keeps_unlocked [OF i u, of a]
    by (simp add: monitor_detects_def onClose_fields)
next
  case (ErrorPath m)
  have "managers (catch_block m s) = managers s \<or>
      (\<exists>a. managers (catch_block m s) = managers (call_cleanup a s))"
    by (auto simp: catch_block_def Let_def setter_defs call_defs split: option.splits)
  then show ?thesis
    using ErrorPath u call_cleanup_keeps_unlocked [OF i u]
    by auto
qed

lemma session_reset_fire:
  "a < length (managers s) \<Longrightarrow> session_reset a s \<Longrightarrow> session_reset a (fire src s)"
  by (simp add: session_reset_def ui_reset_fire fire_keeps_unlocked)

lemma session_reset_fold:
  "a < length (managers s) \<Longrightarrow> session_reset a s \<Longrightarrow> session_reset a (fold fire srcs s)"
  by (induction srcs arbitrary: s) (simp_all add: session_reset_fire length_managers_fire)

lemma ui_reset_fold: "ui_reset s \<Longrightarrow> ui_reset (fold fire srcs s)"
  by (induction srcs arbitrary: s) (simp_all add: ui_reset_fire)

lemma monitor_detects_live:
  assumes "a < length (managers s)" "\<not> inert (managers s ! a)"
  shows "monitor_detects a s = onClose (call_cleanup a s)"
    and "inert (managers (monitor_detects a s) ! a)"
    and "lock (managers (monitor_detects a s) ! a) = Unlocked"
    and "ui_reset (monitor_detects a s)"
  using assms
  by (simp_all add: monitor_detects_def onClose_fields ui_reset_onClose call_defs cleanup_def
      enableScroll_def not_Locked)

lemma monitor_detects_inert:
  "a < length (managers s) \<Longrightarrow> inert (managers s ! a) \<Longrightarrow> monitor_detects a s = s"
  by (simp add: monitor_detects_def)

lemma handleSubmit_resolves:
  assumes acc: "accepted t s" and av: "safariplus_defined e" and res: "open_result e = Resolves"
  shows "handleSubmit t e s =
     call_openBookingDialog (dialog_calls e) (length (managers s)) (bookingData (formData s))
       (prepare_session (cleanup_existing (setError [] s)))"
proof -
  let ?p = "prepare_session (cleanup_existing (setError [] s))"
  have ref: "scrollManagerRef ?p = Some (length (managers s))"
    by (simp add: prepare_session_fields cleanup_existing_fields)
  have fd: "formData ?p = formData s"
    by (simp add: prepare_session_fields cleanup_existing_fields setError_def)
  show ?thesis
    using acc av res
    by (simp add: handleSubmit_accepted invoke_widget_resolves [OF _ _ ref] fd)
qed

lemma opened_session:
  assumes acc: "accepted t s" and av: "safariplus_defined e" and res: "open_result e = Resolves"
  shows "scrollManagerRef (handleSubmit t e s) = Some (length (managers s))"
    and "length (managers (handleSubmit t e s)) = Suc (length (managers s))"
    and "managers (handleSubmit t e s) ! length (managers s) =
      openBookingDialog (dialog_calls e) createInstance"
    and "isLoading (handleSubmit t e s)"
    and "isBookingDialogOpen (handleSubmit t e s)"
    and "currentBookingData (handleSubmit t e s) = Some (bookingData (formData s))"
proof -
  let ?p = "prepare_session (cleanup_existing (setError [] s))"
  let ?n = "length (managers s)"
  have h: "handleSubmit t e s =
      call_openBookingDialog (dialog_calls e) ?n (bookingData (formData s)) ?p"
    using assms by (rule handleSubmit_resolves)
  have len: "length (managers ?p) = Suc ?n"
    by (simp add: prepare_session_fields cleanup_existing_fields)
  then have n: "?n < length (managers ?p)" by simp
  have new: "managers ?p ! ?n = createInstance"
    using prepared_nth_new [of "setError [] s"] by simp
  show "scrollManagerRef (handleSubmit t e s) = Some ?n"
    by (simp add: h prepare_session_fields cleanup_existing_fields)
  show "length (managers (handleSubmit t e s)) = Suc ?n"
    by (simp add: h len)
  show "managers (handleSubmit t e s) ! ?n = openBookingDialog (dialog_calls e) createInstance"
    unfolding h using call_on_new_manager(2) [OF n new] .
  show "isLoading (handleSubmit t e s)" "isBookingDialogOpen (handleSubmit t e s)"
    "currentBookingData (handleSubmit t e s) = Some (bookingData (formData s))"
    by (simp_all add: h call_defs prepare_session_fields cleanup_existing_fields setError_def)
qed

lemma fold_fire_keeps_unlocked:
  "i < length (managers s) \<Longrightarrow> lock (managers s ! i) = Unlocked \<Longrightarrow>
   lock (managers (fold fire srcs s) ! i) = Unlocked"
  by (induction srcs arbitrary: s) (simp_all add: fire_keeps_unlocked length_managers_fire)

lemma example_open_silent:
  "run (\<lambda>k. k) [example_route, Submit widget_silent] (mount False) =
     \<lparr>formData = \<lparr>fd_from = ''mwanza'', fd_to = ''kahama'', fd_date = ''2030-01-15'',
         fd_passengers = ''1''\<rparr>,
      isLoading = True, error = [],
      currentBookingData = Some \<lparr>origin = ''mwanza'', destination = ''kahama'',
         departureDate = ''2030-01-15'', passengersCount = Some 1\<rparr>,
      scrollManagerRef = Some 0, isBookingDialogOpen = True,
      managers = [\<lparr>lock = Unlocked, inert = False\<rparr>],
      trace = [SetFormData \<lparr>fd_from = ''mwanza'', fd_to = ''kahama'', fd_date = ''2030-01-15'',
         fd_passengers = ''1''\<rparr>, SetError [], SetError [], CreateInstance 0, SetIsLoading True,
         SetIsBookingDialogOpen True,
         SetCurrentBookingData (Some \<lparr>origin = ''mwanza'', destination = ''kahama'',
           departureDate = ''2030-01-15'', passengersCount = Some 1\<rparr>),
         OpenBookingDialog 0 \<lparr>origin = ''mwanza'', destination = ''kahama'',
           departureDate = ''2030-01-15'', passengersCount = Some 1\<rparr>]\<rparr>"
  by (simp add: example_route_def widget_silent_def handler_defs manager_defs call_defs
      setter_defs parseInt_1)

text \<open>
  A rejection with \<^verbatim>\<open>null\<close> or \<^verbatim>\<open>undefined\<close>, or with a message that is truthy and
  no string: line 150 throws, and the submission ends as the opened session was, loading
  and dialog-open still true and the manager not cleaned up.
\<close>

lemma handleSubmit_uncaught:
  assumes "accepted t s" "safariplus_defined e" "open_result e = Rejects x"
    "shown_message x = None"
  shows "handleSubmit t e s =
      note_effect UncaughtTypeError (handleSubmit t (e\<lparr>open_result := Resolves\<rparr>) s)"
    and "isLoading (handleSubmit t e s)"
    and "isBookingDialogOpen (handleSubmit t e s)"
    and "scrollManagerRef (handleSubmit t e s) = Some (length (managers s))"
proof -
  let ?o = "handleSubmit t (e\<lparr>open_result := Resolves\<rparr>) s"
  have h: "handleSubmit t e s = note_effect UncaughtTypeError ?o"
    using assms by (simp add: handleSubmit_rejects catch_block_aborts)
  have o: "isLoading ?o" "isBookingDialogOpen ?o" "scrollManagerRef ?o = Some (length (managers s))"
    using opened_session [of t s "e\<lparr>open_result := Resolves\<rparr>"] assms by simp_all
  show "handleSubmit t e s = note_effect UncaughtTypeError ?o" by (rule h)
  show "isLoading (handleSubmit t e s)" "isBookingDialogOpen (handleSubmit t e s)"
    "scrollManagerRef (handleSubmit t e s) = Some (length (managers s))"
    using o by (simp_all add: h note_effect_def)
qed

section \<open>One locked manager at most\<close>

text \<open>
  C1. At most one scroll manager is \<open>Locked\<close> at any time. In every state the
  component reaches from its first render, whatever handlers have run, the number of
  \<open>Locked\<close> managers is at most 1. When a submission passes validation while the ref
  still holds the manager of an earlier session, \<^verbatim>\<open>cleanup()\<close> is called on that
  manager before the new one is created: after the clean-up step the earlier manager is
  disposed of and no manager is \<open>Locked\<close>, none is \<open>Locked\<close> after the new manager
  has been created either, and the trace of the handler shows the call of
  \<^verbatim>\<open>cleanup\<close> directly before \<^verbatim>\<open>createInstance\<close>.
\<close>

theorem single_locked_manager:
  "locked_count (run t evs (mount b)) \<le> 1 \<and>
   (accepted t (run t evs (mount b)) \<longrightarrow>
      (\<forall>a. scrollManagerRef (run t evs (mount b)) = Some a \<longrightarrow>
         inert (managers (cleanup_existing (setError [] (run t evs (mount b)))) ! a) \<and>
         locked_count (cleanup_existing (setError [] (run t evs (mount b)))) = 0 \<and>
         locked_count (prepare_session (cleanup_existing (setError [] (run t evs (mount b))))) = 0 \<and>
         (\<exists>rest. trace (handleSubmit t e (run t evs (mount b))) =
            trace (run t evs (mount b)) @
              SetError [] # Cleanup a # CreateInstance (length (managers (run t evs (mount b)))) # rest)))"
proof -
  let ?s = "run t evs (mount b)"
  have inv: "store_inv ?s" by (rule inv_reachable)
  have count: "locked_count ?s \<le> 1" using inv by (rule inv_locked_count)
  have rel: "all_released (cleanup_existing (setError [] ?s))"
    using inv by (simp add: released_cleanup_existing)
  have submit: "inert (managers (cleanup_existing (setError [] ?s)) ! a) \<and>
      locked_count (cleanup_existing (setError [] ?s)) = 0 \<and>
      locked_count (prepare_session (cleanup_existing (setError [] ?s))) = 0 \<and>
      (\<exists>rest. trace (handleSubmit t e ?s) =
         trace ?s @ SetError [] # Cleanup a # CreateInstance (length (managers ?s)) # rest)"
    if acc: "accepted t ?s" and ref: "scrollManagerRef ?s = Some a" for a
  proof -
    have a: "a < length (managers ?s)" using inv ref by (simp add: store_inv_def ref_valid_def)
    then have "a < length (managers (cleanup_existing (setError [] ?s)))"
      using ref by (simp add: cleanup_existing_def)
    then have 1: "inert (managers (cleanup_existing (setError [] ?s)) ! a)"
      using rel by (simp add: all_released_def)
    have 2: "locked_count (cleanup_existing (setError [] ?s)) = 0"
      using rel by (rule released_locked_count)
    have 3: "locked_count (prepare_session (cleanup_existing (setError [] ?s))) = 0"
      using rel by (rule prepare_session_unlocked)
    let ?p = "prepare_session (cleanup_existing (setError [] ?s))"
    have tp: "trace ?p = trace ?s @
        [SetError [], Cleanup a, CreateInstance (length (managers ?s)), SetIsLoading True,
         SetIsBookingDialogOpen True, SetCurrentBookingData (Some (bookingData (formData ?s)))]"
      using ref by (simp add: trace_prepare_session cleanup_existing_def call_defs setError_def)
    obtain r where "trace (handleSubmit t e ?s) = trace ?p @ r"
      using trace_after_prepare [of e ?p] acc by (auto simp: handleSubmit_accepted)
    then have 4: "\<exists>rest. trace (handleSubmit t e ?s) =
         trace ?s @ SetError [] # Cleanup a # CreateInstance (length (managers ?s)) # rest"
      using tp by simp
    show ?thesis using 1 2 3 4 by blast
  qed
  show ?thesis using count submit by blast
qed

text \<open>
  After one successful submission, in which the call of \<^verbatim>\<open>openBookingDialog\<close> has
  disabled scroll, the manager at address 0 is \<open>Locked\<close> and the ref holds it; a second
  submission cleans it up before it creates the manager at address 1.
\<close>

theorem single_locked_manager_witness:
  "locked_count (run (\<lambda>k. k) [example_route, Submit widget_available] (mount False)) = 1 \<and>
   scrollManagerRef (run (\<lambda>k. k) [example_route, Submit widget_available] (mount False)) = Some 0 \<and>
   inert (managers (cleanup_existing (setError []
     (run (\<lambda>k. k) [example_route, Submit widget_available] (mount False)))) ! 0) \<and>
   locked_count (cleanup_existing (setError []
     (run (\<lambda>k. k) [example_route, Submit widget_available] (mount False)))) = 0 \<and>
   (\<exists>rest. trace (handleSubmit (\<lambda>k. k) widget_available
        (run (\<lambda>k. k) [example_route, Submit widget_available] (mount False))) =
      trace (run (\<lambda>k. k) [example_route, Submit widget_available] (mount False)) @
        SetError [] # Cleanup 0 # CreateInstance 1 # rest)"
proof -
  let ?s = "run (\<lambda>k. k) [example_route, Submit widget_available] (mount False)"
  have acc: "accepted (\<lambda>k. k) ?s" by (simp add: example_open accepted_iff)
  have ref: "scrollManagerRef ?s = Some 0" by (simp add: example_open)
  have cnt: "locked_count ?s = 1" by (simp add: example_open locked_count_def)
  have len: "length (managers ?s) = 1" by (simp add: example_open)
  show ?thesis
    using single_locked_manager [of "\<lambda>k. k" "[example_route, Submit widget_available]" False
        widget_available] acc ref cnt len
    by simp
qed

section \<open>The sources that resolve a session\<close>

text \<open>
  C2, as the specification states it: whichever of closure callback, presence monitor
  and error path fires first performs the reset of the session, and every later firing
  of another source is a no-op. The callback of lines 103-111 calls no method of the
  manager, and the \<^verbatim>\<open>catch\<close> block of lines 147-164 has no guard. So where the
  callback fires first, the ref still holds the manager, the manager is not disposed of
  and the trace holds no call of \<^verbatim>\<open>cleanup\<close>; and the error path, firing after it
  with an \<^verbatim>\<open>Error\<close> of the message \<^verbatim>\<open>Dialog closed\<close>, is no no-op: it calls
  \<^verbatim>\<open>cleanup\<close> on the manager and empties the ref. This is so in the example run
  whether the call of \<^verbatim>\<open>openBookingDialog\<close> has disabled scroll or has called no
  method of the manager.
\<close>

theorem callback_first_counterexample:
  "scrollManagerRef (fire Callback
      (run (\<lambda>k. k) [example_route, Submit widget_available] (mount False))) = Some 0 \<and>
   \<not> inert (managers (fire Callback
      (run (\<lambda>k. k) [example_route, Submit widget_available] (mount False))) ! 0) \<and>
   Cleanup 0 \<notin> set (trace (fire Callback
      (run (\<lambda>k. k) [example_route, Submit widget_available] (mount False)))) \<and>
   Cleanup 0 \<in> set (trace (fire (ErrorPath (Value (Text ''Dialog closed''))) (fire Callback
      (run (\<lambda>k. k) [example_route, Submit widget_available] (mount False))))) \<and>
   scrollManagerRef (fire (ErrorPath (Value (Text ''Dialog closed''))) (fire Callback
      (run (\<lambda>k. k) [example_route, Submit widget_available] (mount False)))) = None \<and>
   inert (managers (fire (ErrorPath (Value (Text ''Dialog closed''))) (fire Callback
      (run (\<lambda>k. k) [example_route, Submit widget_available] (mount False)))) ! 0) \<and>
   scrollManagerRef (fire Callback
      (run (\<lambda>k. k) [example_route, Submit widget_silent] (mount False))) = Some 0 \<and>
   \<not> inert (managers (fire Callback
      (run (\<lambda>k. k) [example_route, Submit widget_silent] (mount False))) ! 0) \<and>
   Cleanup 0 \<notin> set (trace (fire Callback
      (run (\<lambda>k. k) [example_route, Submit widget_silent] (mount False)))) \<and>
   Cleanup 0 \<in> set (trace (fire (ErrorPath (Value (Text ''Dialog closed''))) (fire Callback
      (run (\<lambda>k. k) [example_route, Submit widget_silent] (mount False))))) \<and>
   scrollManagerRef (fire (ErrorPath (Value (Text ''Dialog closed''))) (fire Callback
      (run (\<lambda>k. k) [example_route, Submit widget_silent] (mount False)))) = None \<and>
   inert (managers (fire (ErrorPath (Value (Text ''Dialog closed''))) (fire Callback
      (run (\<lambda>k. k) [example_route, Submit widget_silent] (mount False)))) ! 0)"
  unfolding example_open example_open_silent
  by (simp add: onClose_def catch_block_def setter_defs call_defs cleanup_def enableScroll_def)

text \<open>
  C2, amended. Take a session that reaches the invocation of the widget (the form is
  accepted, the widget is defined, \<^verbatim>\<open>openBookingDialog\<close> has not failed) and whose
  manager that call has not disposed of; loading and dialog-open are then true. If the
  presence monitor fires first, or the error path with a thrown value whose message the
  \<^verbatim>\<open>catch\<close> block can read (not \<^verbatim>\<open>null\<close> or \<^verbatim>\<open>undefined\<close>, the message missing or
  a string), it performs the whole reset: loading false, dialog-open false, session data
  cleared, the manager disposed of and \<open>Unlocked\<close>; the error path also clears the ref.
  If the closure callback fires first, it resets loading, dialog-open and the session
  data and leaves the manager and the ref as they are; the monitor or the error path,
  firing after it, releases the manager. Whatever fires after the monitor or the error
  path keeps the reset, whatever fires after the callback keeps loading false,
  dialog-open false and the session data cleared, and no firing ever turns an
  \<open>Unlocked\<close> manager \<open>Locked\<close>. A detection of the monitor for a manager that is
  disposed of changes nothing at all.
\<close>

theorem resolution_sources:
  assumes s: "s = run t evs (mount b)"
    and acc: "accepted t s"
    and av: "safariplus_defined e"
    and res: "open_result e = Resolves"
    and opened: "opened = handleSubmit t e s"
    and n: "n = length (managers s)"
    and live: "\<not> inert (managers opened ! n)"
    and shown: "shown_message x = Some shown"
  shows "scrollManagerRef opened = Some n \<and> n < length (managers opened) \<and>
    isLoading opened \<and> isBookingDialogOpen opened \<and>
    session_reset n (fire (Monitor n) opened) \<and>
    inert (managers (fire (Monitor n) opened) ! n) \<and>
    session_reset n (fire (ErrorPath x) opened) \<and>
    inert (managers (fire (ErrorPath x) opened) ! n) \<and>
    scrollManagerRef (fire (ErrorPath x) opened) = None \<and>
    ui_reset (fire Callback opened) \<and>
    managers (fire Callback opened) = managers opened \<and>
    scrollManagerRef (fire Callback opened) = Some n \<and>
    session_reset n (fire (Monitor n) (fire Callback opened)) \<and>
    session_reset n (fire (ErrorPath x) (fire Callback opened)) \<and>
    (\<forall>later. session_reset n (fold fire later (fire (Monitor n) opened))) \<and>
    (\<forall>later. session_reset n (fold fire later (fire (ErrorPath x) opened))) \<and>
    (\<forall>later. ui_reset (fold fire later (fire Callback opened))) \<and>
    (\<forall>later y i. i < length (managers y) \<longrightarrow> lock (managers y ! i) = Unlocked \<longrightarrow>
       lock (managers (fold fire later y) ! i) = Unlocked) \<and>
    fire (Monitor n) (fire (Monitor n) opened) = fire (Monitor n) opened \<and>
    fire (Monitor n) (fire (ErrorPath x) opened) = fire (ErrorPath x) opened"
proof -
  have inv: "store_inv s" unfolding s by (rule inv_reachable)
  have invo: "store_inv opened" unfolding opened using inv by (rule inv_handleSubmit)
  note o = opened_session [OF acc av res, folded opened n]
  have session:
    "scrollManagerRef opened = Some n" "n < length (managers opened)"
    "isLoading opened" "isBookingDialogOpen opened"
    using o by simp_all
  note mon = monitor_detects_live [OF session(2) live]
  have monitor_first:
    "session_reset n (fire (Monitor n) opened)"
    "inert (managers (fire (Monitor n) opened) ! n)"
    using mon by (simp_all add: session_reset_def)
  have rel: "all_released (catch_block x opened)"
    using invo shown by (rule released_catch_block)
  have nc: "n < length (managers (catch_block x opened))"
    using session(2) by (simp add: catch_block_keeps)
  have error_first:
    "session_reset n (fire (ErrorPath x) opened)"
    "inert (managers (fire (ErrorPath x) opened) ! n)"
    "scrollManagerRef (fire (ErrorPath x) opened) = None"
    using rel nc
    by (simp_all add: session_reset_def ui_reset_catch_block [OF shown] all_released_def
        catch_block_fields [OF shown])
  have callback_first:
    "ui_reset (fire Callback opened)"
    "managers (fire Callback opened) = managers opened"
    "scrollManagerRef (fire Callback opened) = Some n"
    using session(1) by (simp_all add: ui_reset_onClose onClose_fields)
  have nb: "n < length (managers (onClose opened))" "\<not> inert (managers (onClose opened) ! n)"
    using session live by (simp_all add: onClose_fields)
  have after_callback_monitor: "session_reset n (fire (Monitor n) (fire Callback opened))"
    using monitor_detects_live [OF nb] by (simp add: session_reset_def)
  have "store_inv (onClose opened)" using invo by (simp add: inv_onClose)
  then have "all_released (catch_block x (onClose opened))"
    using shown by (rule released_catch_block)
  then have after_callback_error: "session_reset n (fire (ErrorPath x) (fire Callback opened))"
    using nb(1)
    by (simp add: session_reset_def ui_reset_catch_block [OF shown] all_released_def
        catch_block_keeps)
  have nm: "n < length (managers (fire (Monitor n) opened))"
    using session(2) by (simp only: length_managers_fire)
  have ne: "n < length (managers (fire (ErrorPath x) opened))"
    using session(2) by (simp only: length_managers_fire)
  have keep_monitor: "\<forall>later. session_reset n (fold fire later (fire (Monitor n) opened))"
    using session_reset_fold [OF nm monitor_first(1)] by blast
  have keep_error: "\<forall>later. session_reset n (fold fire later (fire (ErrorPath x) opened))"
    using session_reset_fold [OF ne error_first(1)] by blast
  have keep_callback: "\<forall>later. ui_reset (fold fire later (fire Callback opened))"
    using ui_reset_fold [OF callback_first(1)] by blast
  have no_relock: "\<forall>later y i. i < length (managers y) \<longrightarrow> lock (managers y ! i) = Unlocked \<longrightarrow>
       lock (managers (fold fire later y) ! i) = Unlocked"
    using fold_fire_keeps_unlocked by blast
  have noop:
    "fire (Monitor n) (fire (Monitor n) opened) = fire (Monitor n) opened"
    "fire (Monitor n) (fire (ErrorPath x) opened) = fire (ErrorPath x) opened"
    using monitor_detects_inert [OF nm monitor_first(2)]
      monitor_detects_inert [OF ne error_first(2)]
    by simp_all
  show ?thesis
    by (intro conjI) (fact session monitor_first error_first callback_first
        after_callback_monitor after_callback_error keep_monitor keep_error keep_callback
        no_relock noop)+
qed

text \<open>
  The example run, where the call of \<^verbatim>\<open>openBookingDialog\<close> has disabled scroll: after
  the monitor has fired first, callback, error path and monitor in any order leave the
  session reset, a thrown \<^verbatim>\<open>null\<close> among them; the callback alone leaves the store
  as it is.
\<close>

theorem resolution_sources_witness:
  "session_reset 0 (fire (Monitor 0) (handleSubmit (\<lambda>k. k) widget_available
      (run (\<lambda>k. k) [example_route] (mount False)))) \<and>
   session_reset 0 (fire (ErrorPath (Value Absent)) (handleSubmit (\<lambda>k. k) widget_available
      (run (\<lambda>k. k) [example_route] (mount False)))) \<and>
   session_reset 0 (fold fire [Callback, ErrorPath Nullish, Monitor 0]
      (fire (Monitor 0) (handleSubmit (\<lambda>k. k) widget_available
        (run (\<lambda>k. k) [example_route] (mount False))))) \<and>
   managers (fire Callback (handleSubmit (\<lambda>k. k) widget_available
      (run (\<lambda>k. k) [example_route] (mount False)))) =
   managers (handleSubmit (\<lambda>k. k) widget_available
      (run (\<lambda>k. k) [example_route] (mount False)))"
proof -
  let ?s = "run (\<lambda>k. k) [example_route] (mount False)"
  have acc: "accepted (\<lambda>k. k) ?s" by (simp add: example_filled accepted_iff)
  have av: "safariplus_defined widget_available"
    and res: "open_result widget_available = Resolves"
    by (simp_all add: widget_available_def)
  have n: "0 = length (managers ?s)" by (simp add: example_filled)
  have "managers (handleSubmit (\<lambda>k. k) widget_available ?s) ! length (managers ?s) =
      openBookingDialog (dialog_calls widget_available) createInstance"
    using acc av res by (rule opened_session(3))
  then have live: "\<not> inert (managers (handleSubmit (\<lambda>k. k) widget_available ?s) ! 0)"
    by (simp add: example_filled widget_available_def manager_defs)
  have shown: "shown_message (Value Absent) = Some []" by simp
  show ?thesis
    using resolution_sources [OF refl acc av res refl n live shown] by blast
qed

section \<open>The closure callback\<close>

text \<open>
  C3, as the specification states it: when the closure callback of the widget fires, the
  coordinator resets loading, dialog-open and the session state and releases (cleans up)
  the lock manager it owns. The callback of lines 103-111 calls four setters and no
  method of the manager. After the example run has opened the dialog and the callback
  has fired, the ref still holds the manager at address 0, the manager is not disposed
  of, and the trace holds no call of \<^verbatim>\<open>cleanup\<close>; in this run the call of
  \<^verbatim>\<open>openBookingDialog\<close> has disabled scroll, and the manager is still \<open>Locked\<close>.
\<close>

theorem callback_releases_manager_counterexample:
  "scrollManagerRef (onClose (run (\<lambda>k. k) [example_route, Submit widget_available] (mount False)))
     = Some 0 \<and>
   \<not> inert (managers (onClose
     (run (\<lambda>k. k) [example_route, Submit widget_available] (mount False))) ! 0) \<and>
   lock (managers (onClose
     (run (\<lambda>k. k) [example_route, Submit widget_available] (mount False))) ! 0) = Locked \<and>
   Cleanup 0 \<notin> set (trace (onClose
     (run (\<lambda>k. k) [example_route, Submit widget_available] (mount False))))"
  unfolding example_open
  by (simp add: onClose_def setter_defs)

text \<open>
  C3, amended. When the closure callback fires, the coordinator resets loading to false
  and dialog-open to false and clears the session state and the error message; the form,
  the store of managers and the ref are left as they are, so the callback does not
  release the lock manager. The callback has no guard: fired again it repeats its four
  setter calls, which changes nothing but the trace. A detection of the monitor after
  the callback, on a manager that is not yet disposed of, disposes of it, leaves it
  \<open>Unlocked\<close> and keeps loading false, dialog-open false and the session state cleared.
\<close>

theorem callback_resets_ui_only:
  "isLoading (onClose s) = False \<and>
   isBookingDialogOpen (onClose s) = False \<and>
   currentBookingData (onClose s) = None \<and>
   error (onClose s) = [] \<and>
   formData (onClose s) = formData s \<and>
   managers (onClose s) = managers s \<and>
   scrollManagerRef (onClose s) = scrollManagerRef s \<and>
   trace (onClose s) = trace s @
     [SetIsBookingDialogOpen False, SetIsLoading False, SetCurrentBookingData None, SetError []] \<and>
   onClose (onClose s) = (onClose s)\<lparr>trace := trace (onClose s) @
     [SetIsBookingDialogOpen False, SetIsLoading False, SetCurrentBookingData None, SetError []]\<rparr> \<and>
   (a < length (managers s) \<longrightarrow> \<not> inert (managers s ! a) \<longrightarrow>
      inert (managers (monitor_detects a (onClose s)) ! a) \<and>
      lock (managers (monitor_detects a (onClose s)) ! a) = Unlocked \<and>
      ui_reset (monitor_detects a (onClose s)))"
proof -
  have later: "a < length (managers s) \<longrightarrow> \<not> inert (managers s ! a) \<longrightarrow>
      inert (managers (monitor_detects a (onClose s)) ! a) \<and>
      lock (managers (monitor_detects a (onClose s)) ! a) = Unlocked \<and>
      ui_reset (monitor_detects a (onClose s))"
    using monitor_detects_live [of a "onClose s"] by (simp add: onClose_fields)
  show ?thesis
    by (intro conjI) (fact onClose_fields onClose_twice later)+
qed

text \<open>The callback fires while the dialog of the example run is open.\<close>

theorem callback_resets_ui_only_witness:
  "isLoading (run (\<lambda>k. k) [example_route, Submit widget_available] (mount False)) \<and>
   isLoading (onClose (run (\<lambda>k. k) [example_route, Submit widget_available] (mount False)))
     = False \<and>
   managers (onClose (run (\<lambda>k. k) [example_route, Submit widget_available] (mount False)))
     = [\<lparr>lock = Locked, inert = False\<rparr>] \<and>
   lock (managers (monitor_detects 0
     (onClose (run (\<lambda>k. k) [example_route, Submit widget_available] (mount False)))) ! 0)
     = Unlocked"
proof -
  let ?s = "run (\<lambda>k. k) [example_route, Submit widget_available] (mount False)"
  have ms: "managers ?s = [\<lparr>lock = Locked, inert = False\<rparr>]" by (simp add: example_open)
  have l: "isLoading ?s" by (simp add: example_open)
  have a: "0 < length (managers ?s)" "\<not> inert (managers ?s ! 0)" by (simp_all add: ms)
  have "isLoading (onClose ?s) = False \<and> managers (onClose ?s) = managers ?s \<and>
      lock (managers (monitor_detects 0 (onClose ?s)) ! 0) = Unlocked"
    using callback_resets_ui_only [of ?s 0] a by blast
  then show ?thesis using l unfolding ms by blast
qed

section \<open>The widget is not available\<close>

text \<open>
  C4. A submission that passes validation while \<^verbatim>\<open>window.safariplus\<close> is undefined,
  outside the development environment, fails with the widget-unavailable error and rolls
  the prepared session back. At the point of the failure loading and dialog-open are
  true; when the handler ends both are false again, the session data is cleared, the ref
  is empty, every manager of the store is disposed of and \<open>Unlocked\<close> (so no scroll lock
  is left), and the error message is the non-empty text of the thrown error. The trace
  ends with the setters going to true, then the message, the clean-up and the setters
  going back to false.
\<close>

theorem widget_unavailable_rollback:
  assumes s: "s = run t evs (mount b)"
    and acc: "accepted t s"
    and unavailable: "\<not> safariplus_defined e"
    and production: "node_env e \<noteq> ''development''"
    and p: "p = prepare_session (cleanup_existing (setError [] s))"
  shows "isLoading p \<and> isBookingDialogOpen p \<and>
    invoke_widget e p = (Inl (Value (Text loading_message)), p) \<and>
    handleSubmit t e s = catch_block (Value (Text loading_message)) p \<and>
    \<not> isLoading (handleSubmit t e s) \<and> \<not> isBookingDialogOpen (handleSubmit t e s) \<and>
    currentBookingData (handleSubmit t e s) = None \<and>
    scrollManagerRef (handleSubmit t e s) = None \<and>
    error (handleSubmit t e s) = loading_message \<and> error (handleSubmit t e s) \<noteq> [] \<and>
    all_released (handleSubmit t e s) \<and> locked_count (handleSubmit t e s) = 0 \<and>
    (\<exists>before. trace (handleSubmit t e s) = before @
      [CreateInstance (length (managers s)), SetIsLoading True, SetIsBookingDialogOpen True,
       SetCurrentBookingData (Some (bookingData (formData s))),
       SetError loading_message, Cleanup (length (managers s)), SetIsLoading False,
       SetIsBookingDialogOpen False, SetCurrentBookingData None])"
proof -
  have inv: "store_inv s" unfolding s by (rule inv_reachable)
  have invp: "store_inv p" unfolding p using inv by (rule inv_prepared)
  have h: "handleSubmit t e s = catch_block (Value (Text loading_message)) p"
    using acc unavailable production by (simp add: handleSubmit_accepted invoke_widget_unavailable p)
  have ref: "scrollManagerRef p = Some (length (managers s))"
    by (simp add: p prepare_session_fields cleanup_existing_fields)
  have rel: "all_released (catch_block (Value (Text loading_message)) p)"
    using invp shown_loading_message by (rule released_catch_block)
  have "trace (catch_block (Value (Text loading_message)) p) = trace p @
      [SetError loading_message, Cleanup (length (managers s)), SetIsLoading False,
       SetIsBookingDialogOpen False, SetCurrentBookingData None]"
    using ref by (simp add: trace_catch_block_ref [OF shown_loading_message])
  then have tr: "\<exists>before. trace (catch_block (Value (Text loading_message)) p) = before @
      [CreateInstance (length (managers s)), SetIsLoading True, SetIsBookingDialogOpen True,
       SetCurrentBookingData (Some (bookingData (formData s))),
       SetError loading_message, Cleanup (length (managers s)), SetIsLoading False,
       SetIsBookingDialogOpen False, SetCurrentBookingData None]"
    by (simp add: p trace_prepare_session cleanup_existing_fields setError_def)
  show ?thesis
    unfolding h
    using rel tr released_locked_count [OF rel]
    by (simp add: catch_block_fields [OF shown_loading_message] loading_message_nonempty
        p prepare_session_fields invoke_widget_unavailable [OF unavailable production])
qed

text \<open>The form filled by a route click, submitted where the widget is missing.\<close>

theorem widget_unavailable_rollback_witness:
  "isLoading (prepare_session (cleanup_existing (setError [] (run (\<lambda>k. k) [example_route] (mount False))))) \<and>
   \<not> isLoading (handleSubmit (\<lambda>k. k) widget_unavailable (run (\<lambda>k. k) [example_route] (mount False))) \<and>
   \<not> isBookingDialogOpen (handleSubmit (\<lambda>k. k) widget_unavailable (run (\<lambda>k. k) [example_route] (mount False))) \<and>
   error (handleSubmit (\<lambda>k. k) widget_unavailable (run (\<lambda>k. k) [example_route] (mount False))) =
     ''SafariYetu booking system is loading. Please try again in a moment.'' \<and>
   managers (handleSubmit (\<lambda>k. k) widget_unavailable (run (\<lambda>k. k) [example_route] (mount False))) =
     [\<lparr>lock = Unlocked, inert = True\<rparr>] \<and>
   locked_count (handleSubmit (\<lambda>k. k) widget_unavailable (run (\<lambda>k. k) [example_route] (mount False))) = 0"
proof -
  let ?s = "run (\<lambda>k. k) [example_route] (mount False)"
  have acc: "accepted (\<lambda>k. k) ?s" by (simp add: example_filled accepted_iff)
  have env: "\<not> safariplus_defined widget_unavailable" "node_env widget_unavailable \<noteq> ''development''"
    by (simp_all add: widget_unavailable_def)
  have ms: "managers (handleSubmit (\<lambda>k. k) widget_unavailable ?s) = [\<lparr>lock = Unlocked, inert = True\<rparr>]"
    unfolding example_filled
    by (simp add: widget_unavailable_def handler_defs manager_defs call_defs
        setter_defs parseInt_1 loading_message_def)
  show ?thesis
    using widget_unavailable_rollback [OF refl acc env refl] ms
    unfolding loading_message_def by blast
qed

section \<open>Failures of the invocation\<close>

text \<open>
  C5, as the specification states it: of the failures raised during or after the
  invocation of the widget only the widget-unavailable error is shown, every other one
  ends with an empty error message. The handler tells the two apart by the word
  \<^verbatim>\<open>loading\<close> in the message, so the claim fails for a failure of the widget itself
  whose message holds that word: the widget is defined, \<^verbatim>\<open>openBookingDialog\<close> is called
  and rejects, and the message is on display when the handler ends.
\<close>

theorem other_failure_shown_counterexample:
  "safariplus_defined widget_rejecting \<and>
   OpenBookingDialog 0 (bookingData (formData (run (\<lambda>k. k) [example_route] (mount False))))
     \<in> set (trace (handleSubmit (\<lambda>k. k) widget_rejecting
         (run (\<lambda>k. k) [example_route] (mount False)))) \<and>
   error (handleSubmit (\<lambda>k. k) widget_rejecting (run (\<lambda>k. k) [example_route] (mount False)))
     = ''Error loading seat map''"
  unfolding example_filled
  by (simp add: widget_rejecting_def handler_defs manager_defs call_defs setter_defs
      parseInt_1)

text \<open>
  C5, amended. Take a failure raised during or after the invocation whose thrown value
  is not \<^verbatim>\<open>null\<close> or \<^verbatim>\<open>undefined\<close> and whose message is missing or a string; these
  are the thrown values for which line 150 yields a message to show. If the message is
  missing or does not contain \<^verbatim>\<open>loading\<close> the failure is suppressed: the error
  message ends empty. If the message contains \<^verbatim>\<open>loading\<close> it is shown, whether the
  failure is the widget-unavailable error or not. In both cases the state is reset: the
  manager is cleaned up and the ref cleared, loading and dialog-open are false, the
  session data is cleared. This holds for the \<^verbatim>\<open>catch\<close> block on every reachable
  state, and a submission whose call of \<^verbatim>\<open>openBookingDialog\<close> rejects ends in the
  \<^verbatim>\<open>catch\<close> block. The other thrown values, for which line 150 itself throws, are no
  part of the statement.
\<close>

theorem invocation_failure_reset:
  assumes r: "r = run t evs (mount b)"
    and shown: "shown_message x = Some shown"
  shows "(x = Value Absent \<or> (\<exists>msg. x = Value (Text msg))) \<and>
    error (catch_block x r) = shown \<and>
    (x = Value Absent \<longrightarrow> shown = []) \<and>
    (\<forall>msg. x = Value (Text msg) \<longrightarrow> \<not> str_includes msg ''loading'' \<longrightarrow> shown = []) \<and>
    (\<forall>msg. x = Value (Text msg) \<longrightarrow> str_includes msg ''loading'' \<longrightarrow> shown = msg \<and> msg \<noteq> []) \<and>
    \<not> isLoading (catch_block x r) \<and> \<not> isBookingDialogOpen (catch_block x r) \<and>
    currentBookingData (catch_block x r) = None \<and>
    scrollManagerRef (catch_block x r) = None \<and>
    all_released (catch_block x r) \<and> locked_count (catch_block x r) = 0 \<and>
    (accepted t r \<longrightarrow> safariplus_defined e \<longrightarrow> open_result e = Rejects x \<longrightarrow>
       handleSubmit t e r = catch_block x (handleSubmit t (e\<lparr>open_result := Resolves\<rparr>) r) \<and>
       error (handleSubmit t e r) = shown \<and>
       \<not> isLoading (handleSubmit t e r) \<and> \<not> isBookingDialogOpen (handleSubmit t e r) \<and>
       currentBookingData (handleSubmit t e r) = None \<and>
       scrollManagerRef (handleSubmit t e r) = None \<and>
       all_released (handleSubmit t e r) \<and> locked_count (handleSubmit t e r) = 0)"
proof -
  have inv: "store_inv r" unfolding r by (rule inv_reachable)
  have rel: "all_released (catch_block x r)" using inv shown by (rule released_catch_block)
  have kinds: "x = Value Absent \<or> (\<exists>msg. x = Value (Text msg))"
    using shown by (cases x rule: shown_message.cases) simp_all
  have message:
    "error (catch_block x r) = shown"
    "x = Value Absent \<longrightarrow> shown = []"
    "\<forall>msg. x = Value (Text msg) \<longrightarrow> \<not> str_includes msg ''loading'' \<longrightarrow> shown = []"
    "\<forall>msg. x = Value (Text msg) \<longrightarrow> str_includes msg ''loading'' \<longrightarrow> shown = msg \<and> msg \<noteq> []"
    using shown
    by (auto simp: catch_block_fields shown_message_cases dest: str_includes_nonempty)
  have reset:
    "\<not> isLoading (catch_block x r)" "\<not> isBookingDialogOpen (catch_block x r)"
    "currentBookingData (catch_block x r) = None"
    "scrollManagerRef (catch_block x r) = None"
    "all_released (catch_block x r)" "locked_count (catch_block x r) = 0"
    using rel released_locked_count [OF rel] by (simp_all add: catch_block_fields [OF shown])
  have submit: "accepted t r \<longrightarrow> safariplus_defined e \<longrightarrow> open_result e = Rejects x \<longrightarrow>
       handleSubmit t e r = catch_block x (handleSubmit t (e\<lparr>open_result := Resolves\<rparr>) r) \<and>
       error (handleSubmit t e r) = shown \<and>
       \<not> isLoading (handleSubmit t e r) \<and> \<not> isBookingDialogOpen (handleSubmit t e r) \<and>
       currentBookingData (handleSubmit t e r) = None \<and>
       scrollManagerRef (handleSubmit t e r) = None \<and>
       all_released (handleSubmit t e r) \<and> locked_count (handleSubmit t e r) = 0"
  proof (intro impI)
    assume acc: "accepted t r" and av: "safariplus_defined e" and rej: "open_result e = Rejects x"
    let ?o = "handleSubmit t (e\<lparr>open_result := Resolves\<rparr>) r"
    have h: "handleSubmit t e r = catch_block x ?o"
      using acc av rej by (rule handleSubmit_rejects)
    have "store_inv ?o" using inv by (rule inv_handleSubmit)
    then have rel': "all_released (catch_block x ?o)" using shown by (rule released_catch_block)
    show "handleSubmit t e r = catch_block x ?o \<and>
       error (handleSubmit t e r) = shown \<and>
       \<not> isLoading (handleSubmit t e r) \<and> \<not> isBookingDialogOpen (handleSubmit t e r) \<and>
       currentBookingData (handleSubmit t e r) = None \<and>
       scrollManagerRef (handleSubmit t e r) = None \<and>
       all_released (handleSubmit t e r) \<and> locked_count (handleSubmit t e r) = 0"
      unfolding h using rel' released_locked_count [OF rel']
      by (simp add: catch_block_fields [OF shown])
  qed
  show ?thesis by (intro conjI) (fact kinds message reset submit)+
qed

text \<open>
  A failure without the word is suppressed: the form of the example run, and a widget
  that rejects with an \<^verbatim>\<open>Error\<close> of the message \<^verbatim>\<open>Seat map error\<close>.
\<close>

theorem invocation_failure_reset_witness:
  "error (handleSubmit (\<lambda>k. k)
      \<lparr>safariplus_defined = True, node_env = ''production'', dialog_calls = [],
       open_result = Rejects (Value (Text ''Seat map error''))\<rparr>
      (run (\<lambda>k. k) [example_route] (mount False))) = [] \<and>
   \<not> isLoading (handleSubmit (\<lambda>k. k)
      \<lparr>safariplus_defined = True, node_env = ''production'', dialog_calls = [],
       open_result = Rejects (Value (Text ''Seat map error''))\<rparr>
      (run (\<lambda>k. k) [example_route] (mount False))) \<and>
   scrollManagerRef (handleSubmit (\<lambda>k. k)
      \<lparr>safariplus_defined = True, node_env = ''production'', dialog_calls = [],
       open_result = Rejects (Value (Text ''Seat map error''))\<rparr>
      (run (\<lambda>k. k) [example_route] (mount False))) = None \<and>
   locked_count (handleSubmit (\<lambda>k. k)
      \<lparr>safariplus_defined = True, node_env = ''production'', dialog_calls = [],
       open_result = Rejects (Value (Text ''Seat map error''))\<rparr>
      (run (\<lambda>k. k) [example_route] (mount False))) = 0"
proof -
  let ?s = "run (\<lambda>k. k) [example_route] (mount False)"
  let ?e = "\<lparr>safariplus_defined = True, node_env = ''production'', dialog_calls = [],
       open_result = Rejects (Value (Text ''Seat map error''))\<rparr>"
  have acc: "accepted (\<lambda>k. k) ?s" by (simp add: example_filled accepted_iff)
  have av: "safariplus_defined ?e"
    and rej: "open_result ?e = Rejects (Value (Text ''Seat map error''))"
    by simp_all
  have sm: "shown_message (Value (Text ''Seat map error'')) = Some []"
    by simp
  show ?thesis
    using invocation_failure_reset [OF refl sm, of "\<lambda>k. k" "[example_route]" False ?e]
      acc av rej
    by blast
qed

section \<open>Validation order\<close>



section \<open>A rejected form changes nothing but the message\<close>

text \<open>
  C7. Validation failure has no side effect. When the form is rejected, the submit
  handler leaves the state as it was except for the error message: the trace gains the
  two calls of \<^verbatim>\<open>setError\<close> only (the reset to the empty string and the message), so no
  manager is created or locked and the widget is not invoked, and loading and
  dialog-open keep their values. A form with no origin gets the message of
  \<^verbatim>\<open>selectDepartureError\<close>.
\<close>

theorem rejected_form_only_sets_error:
  assumes "\<not> accepted t s"
  shows "\<exists>msg.
    handleSubmit t e s = s\<lparr>error := msg, trace := trace s @ [SetError [], SetError msg]\<rparr> \<and>
    (fd_from (formData s) = [] \<longrightarrow> msg = t ''selectDepartureError'') \<and>
    isLoading (handleSubmit t e s) = isLoading s \<and>
    isBookingDialogOpen (handleSubmit t e s) = isBookingDialogOpen s \<and>
    managers (handleSubmit t e s) = managers s \<and>
    scrollManagerRef (handleSubmit t e s) = scrollManagerRef s \<and>
    currentBookingData (handleSubmit t e s) = currentBookingData s"
proof -
  have "\<not> accepted t (setError [] s)" using assms by simp
  then obtain key where
    v: "validateForm t (setError [] s) = (False, setError (t key) (setError [] s))"
    and k: "fd_from (formData s) = [] \<longrightarrow> key = ''selectDepartureError''"
    using validateForm_rejected [of t "setError [] s"] by (auto simp: setError_def)
  have h: "handleSubmit t e s =
      s\<lparr>error := t key, trace := trace s @ [SetError [], SetError (t key)]\<rparr>"
    unfolding handleSubmit_def v by (simp add: setError_def)
  show ?thesis
    by (rule exI [of _ "t key"]) (use k in \<open>simp add: h\<close>)
qed

text \<open>The form of the first render has no origin.\<close>

theorem rejected_form_only_sets_error_witness:
  "handleSubmit (\<lambda>k. k) widget_available (mount False) =
     (mount False)\<lparr>error := ''selectDepartureError'',
       trace := [SetError [], SetError ''selectDepartureError'']\<rparr> \<and>
   managers (handleSubmit (\<lambda>k. k) widget_available (mount False)) = [] \<and>
   isLoading (handleSubmit (\<lambda>k. k) widget_available (mount False)) = False"
proof -
  have rej: "\<not> accepted (\<lambda>k. k) (mount False)"
    by (simp add: accepted_iff mount_def)
  have fm: "fd_from (formData (mount False)) = []"
    by (simp add: mount_def)
  obtain msg where
    h: "handleSubmit (\<lambda>k. k) widget_available (mount False) =
         (mount False)\<lparr>error := msg, trace := trace (mount False) @ [SetError [], SetError msg]\<rparr>"
    and m: "fd_from (formData (mount False)) = [] \<longrightarrow> msg = ''selectDepartureError''"
    using rejected_form_only_sets_error [OF rej, of widget_available] by blast
  have "msg = ''selectDepartureError''" using m fm by blast
  then show ?thesis unfolding h by (simp add: mount_def)
qed

section \<open>The request handed to the widget\<close>

text \<open>
  C8, as the specification states it: every request that validation accepts satisfies
  the invariant of a trip request. Validation only looks whether the date and the count
  are there. With a date of the year 2000 and the count \<^verbatim>\<open>0\<close> in the form, the form is
  accepted and the request is handed to \<^verbatim>\<open>openBookingDialog\<close>, yet for a day of 2025
  as today the date lies before today, the count is not positive, and the invariant
  fails.
\<close>

theorem trip_request_invariant_counterexample:
  "accepted (\<lambda>k. k) (run (\<lambda>k. k) past_date_no_passengers (mount False)) \<and>
   OpenBookingDialog 0 (bookingData (formData (run (\<lambda>k. k) past_date_no_passengers (mount False))))
     \<in> set (trace (handleSubmit (\<lambda>k. k) widget_available
         (run (\<lambda>k. k) past_date_no_passengers (mount False)))) \<and>
   departureDate (bookingData (formData (run (\<lambda>k. k) past_date_no_passengers (mount False))))
     = ''2000-01-01'' \<and>
   passengersCount (bookingData (formData (run (\<lambda>k. k) past_date_no_passengers (mount False))))
     = Some 0 \<and>
   \<not> date_from_today (2025, 1, 1)
     (departureDate (bookingData (formData (run (\<lambda>k. k) past_date_no_passengers (mount False))))) \<and>
   \<not> positive_count
     (passengersCount (bookingData (formData (run (\<lambda>k. k) past_date_no_passengers (mount False))))) \<and>
   \<not> trip_request_invariant (2025, 1, 1)
     (bookingData (formData (run (\<lambda>k. k) past_date_no_passengers (mount False))))"
  unfolding example_past
  by (simp add: accepted_iff bookingData_def parseInt_0 date_from_today_def calendar_date_2000
      positive_count_def trip_request_invariant_def widget_available_def handleSubmit_def
      validateForm_def cleanup_existing_def prepare_session_def invoke_widget_def
      new_manager_def call_defs setter_defs)

text \<open>
  C8, amended. For every raw input accepted by validation, the request handed to the
  widget has a non-empty origin and a non-empty destination that differ, the non-empty
  date string of the form as departure date, and as passenger count the result of
  \<^verbatim>\<open>parseInt\<close> on the non-empty passengers string of the form. Validation compares
  the date with no other date and does not ask the count to be a positive integer.
\<close>

theorem accepted_request:
  assumes acc: "accepted t s" and r: "r = bookingData (formData s)"
  shows "origin r = fd_from (formData s) \<and> origin r \<noteq> [] \<and>
    destination r = fd_to (formData s) \<and> destination r \<noteq> [] \<and>
    origin r \<noteq> destination r \<and>
    departureDate r = fd_date (formData s) \<and> departureDate r \<noteq> [] \<and>
    passengersCount r = parseInt (fd_passengers (formData s)) \<and>
    fd_passengers (formData s) \<noteq> [] \<and>
    (safariplus_defined e \<longrightarrow>
       (\<exists>before after. trace (handleSubmit t e s) =
          before @ OpenBookingDialog (length (managers s)) r # after))"
proof -
  have fields:
    "origin r = fd_from (formData s)" "origin r \<noteq> []"
    "destination r = fd_to (formData s)" "destination r \<noteq> []"
    "origin r \<noteq> destination r"
    "departureDate r = fd_date (formData s)" "departureDate r \<noteq> []"
    "passengersCount r = parseInt (fd_passengers (formData s))"
    "fd_passengers (formData s) \<noteq> []"
    using acc by (simp_all add: r bookingData_def accepted_iff)
  have handed: "safariplus_defined e \<longrightarrow>
       (\<exists>before after. trace (handleSubmit t e s) =
          before @ OpenBookingDialog (length (managers s)) r # after)"
    unfolding r using trace_submit_available [OF acc] by blast
  show ?thesis by (intro conjI) (fact fields handed)+
qed

text \<open>The form of the example run: one passenger on a day of 2030.\<close>

theorem accepted_request_witness:
  "bookingData (formData (run (\<lambda>k. k) [example_route] (mount False))) =
     \<lparr>origin = ''mwanza'', destination = ''kahama'', departureDate = ''2030-01-15'',
      passengersCount = Some 1\<rparr> \<and>
   (\<exists>before after. trace (handleSubmit (\<lambda>k. k) widget_available
        (run (\<lambda>k. k) [example_route] (mount False))) =
      before @ OpenBookingDialog 0 \<lparr>origin = ''mwanza'', destination = ''kahama'',
        departureDate = ''2030-01-15'', passengersCount = Some 1\<rparr> # after)"
proof -
  let ?s = "run (\<lambda>k. k) [example_route] (mount False)"
  have acc: "accepted (\<lambda>k. k) ?s" by (simp add: example_filled accepted_iff)
  have bd: "bookingData (formData ?s) =
     \<lparr>origin = ''mwanza'', destination = ''kahama'', departureDate = ''2030-01-15'',
      passengersCount = Some 1\<rparr>"
    by (simp add: example_filled bookingData_def parseInt_1)
  have n: "length (managers ?s) = 0" by (simp add: example_filled)
  have av: "safariplus_defined widget_available" by (simp add: widget_available_def)
  have "\<exists>before after. trace (handleSubmit (\<lambda>k. k) widget_available ?s) =
      before @ OpenBookingDialog (length (managers ?s)) (bookingData (formData ?s)) # after"
    using accepted_request [OF acc refl, of widget_available] av by blast
  then show ?thesis unfolding bd n using bd by blast
qed

section \<open>The step before the availability check\<close>

text \<open>
  C9, as the specification states it: before the check of \<^verbatim>\<open>window.safariplus\<close> the
  handler has cleaned up any stale manager, created a new one, set loading and
  dialog-open to true and disabled scroll. The last part fails. For the form filled by a
  route click, the state in which the check runs has the new manager at address 0 still
  \<open>Unlocked\<close>, and the trace up to that point holds no call of \<^verbatim>\<open>disableScroll\<close>.
\<close>

theorem prepare_disables_scroll_counterexample:
  "accepted (\<lambda>k. k) (run (\<lambda>k. k) [example_route] (mount False)) \<and>
   scrollManagerRef (prepare_session (cleanup_existing (setError []
     (run (\<lambda>k. k) [example_route] (mount False))))) = Some 0 \<and>
   lock (managers (prepare_session (cleanup_existing (setError []
     (run (\<lambda>k. k) [example_route] (mount False))))) ! 0) = Unlocked \<and>
   DisableScroll 0 \<notin> set (trace (prepare_session (cleanup_existing (setError []
     (run (\<lambda>k. k) [example_route] (mount False))))))"
  unfolding example_filled
  by (simp add: accepted_iff prepare_session_def new_manager_def cleanup_existing_def
      setter_defs createInstance_def)

text \<open>
  C9, amended. For every submission that passes validation, the step performed before
  the availability check consists of: cleaning up any stale manager, creating a new
  manager, setting loading to true, setting dialog-open to true and storing the request.
  Scroll is not disabled in this step: when the check runs the new manager is
  \<open>Unlocked\<close> and no manager is \<open>Locked\<close>. After the check the handler itself calls
  \<^verbatim>\<open>disableScroll\<close> in the development branch only, where the new manager becomes
  \<open>Locked\<close>. Where the widget is available the handler calls \<^verbatim>\<open>openBookingDialog\<close>
  on the new manager and no other method of it; what becomes of the manager is up to
  that call. Where the handler throws the loading error it calls no method at all.
\<close>

theorem prepare_step_then_check:
  assumes s: "s = run t evs (mount b)"
    and acc: "accepted t s"
    and p: "p = prepare_session (cleanup_existing (setError [] s))"
    and n: "n = length (managers s)"
  shows "handleSubmit t e s =
      (case invoke_widget e p of (Inl x, s2) \<Rightarrow> catch_block x s2 | (Inr u, s2) \<Rightarrow> s2) \<and>
    trace p = trace s @ [SetError []] @
      (case scrollManagerRef s of None \<Rightarrow> [] | Some a \<Rightarrow> [Cleanup a]) @
      [CreateInstance n, SetIsLoading True, SetIsBookingDialogOpen True,
       SetCurrentBookingData (Some (bookingData (formData s)))] \<and>
    isLoading p \<and> isBookingDialogOpen p \<and>
    currentBookingData p = Some (bookingData (formData s)) \<and>
    scrollManagerRef p = Some n \<and> length (managers p) = Suc n \<and>
    managers p ! n = createInstance \<and> lock (managers p ! n) = Unlocked \<and>
    locked_count p = 0 \<and>
    (\<forall>i<n. inert (managers p ! i)) \<and>
    (\<not> safariplus_defined e \<and> node_env e = ''development'' \<longrightarrow>
       trace (snd (invoke_widget e p)) = trace p @ [DisableScroll n, SetTimeout 1500] \<and>
       lock (managers (snd (invoke_widget e p)) ! n) = Locked) \<and>
    (\<not> safariplus_defined e \<and> node_env e \<noteq> ''development'' \<longrightarrow>
       invoke_widget e p = (Inl (Value (Text loading_message)), p)) \<and>
    (safariplus_defined e \<longrightarrow>
       trace (snd (invoke_widget e p)) =
         trace p @ [OpenBookingDialog n (bookingData (formData s))] \<and>
       managers (snd (invoke_widget e p)) ! n =
         openBookingDialog (dialog_calls e) createInstance)"
proof -
  have inv: "store_inv s" unfolding s by (rule inv_reachable)
  have rel: "all_released (cleanup_existing (setError [] s))"
    using inv by (simp add: released_cleanup_existing)
  have h: "handleSubmit t e s =
      (case invoke_widget e p of (Inl x, s2) \<Rightarrow> catch_block x s2 | (Inr u, s2) \<Rightarrow> s2)"
    using acc by (simp add: handleSubmit_accepted p)
  have tr: "trace p = trace s @ [SetError []] @
      (case scrollManagerRef s of None \<Rightarrow> [] | Some a \<Rightarrow> [Cleanup a]) @
      [CreateInstance n, SetIsLoading True, SetIsBookingDialogOpen True,
       SetCurrentBookingData (Some (bookingData (formData s)))]"
    unfolding p n by (rule trace_prepared)
  have fields: "isLoading p" "isBookingDialogOpen p"
    "currentBookingData p = Some (bookingData (formData s))"
    "scrollManagerRef p = Some n" "length (managers p) = Suc n"
    by (simp_all add: p n prepare_session_fields cleanup_existing_fields setError_def)
  have new: "managers p ! n = createInstance"
    using prepared_nth_new [of "setError [] s"] by (simp add: p n)
  have unl: "lock (managers p ! n) = Unlocked"
    by (simp add: new createInstance_fields)
  have cnt: "locked_count p = 0"
    unfolding p using rel by (rule prepare_session_unlocked)
  have old: "\<forall>i<n. inert (managers p ! i)"
    using rel prepared_nth_old [of _ "setError [] s"]
    by (simp add: p n all_released_def cleanup_existing_fields)
  have nlt: "n < length (managers p)" using fields by simp
  have dev: "\<not> safariplus_defined e \<and> node_env e = ''development'' \<longrightarrow>
       trace (snd (invoke_widget e p)) = trace p @ [DisableScroll n, SetTimeout 1500] \<and>
       lock (managers (snd (invoke_widget e p)) ! n) = Locked"
    using fields(4) call_on_new_manager(1) [OF nlt new]
    by (auto simp: invoke_widget_development) (simp add: call_defs setter_defs)
  have unavailable: "\<not> safariplus_defined e \<and> node_env e \<noteq> ''development'' \<longrightarrow>
       invoke_widget e p = (Inl (Value (Text loading_message)), p)"
    by (simp add: invoke_widget_unavailable)
  have fd: "formData p = formData s"
    by (simp add: p prepare_session_fields cleanup_existing_fields setError_def)
  have avail: "safariplus_defined e \<longrightarrow>
       trace (snd (invoke_widget e p)) =
         trace p @ [OpenBookingDialog n (bookingData (formData s))] \<and>
       managers (snd (invoke_widget e p)) ! n =
         openBookingDialog (dialog_calls e) createInstance"
    using fields(4) call_on_new_manager(2) [OF nlt new] fd
    by (auto simp: invoke_widget_available) (simp add: call_defs)
  show ?thesis
    by (intro conjI) (fact h tr fields new unl cnt old dev unavailable avail)+
qed

text \<open>
  The form of the example run, submitted in the development environment: the manager is
  \<open>Unlocked\<close> when the check runs and \<open>Locked\<close> after the branch has called
  \<^verbatim>\<open>disableScroll\<close>.
\<close>

theorem prepare_step_then_check_witness:
  "lock (managers (prepare_session (cleanup_existing (setError []
      (run (\<lambda>k. k) [example_route] (mount False)))))  ! 0) = Unlocked \<and>
   locked_count (prepare_session (cleanup_existing (setError []
      (run (\<lambda>k. k) [example_route] (mount False))))) = 0 \<and>
   lock (managers (snd (invoke_widget development_mock (prepare_session (cleanup_existing
      (setError [] (run (\<lambda>k. k) [example_route] (mount False))))))) ! 0) = Locked"
proof -
  let ?s = "run (\<lambda>k. k) [example_route] (mount False)"
  have acc: "accepted (\<lambda>k. k) ?s" by (simp add: example_filled accepted_iff)
  have n: "0 = length (managers ?s)" by (simp add: example_filled)
  have dev: "\<not> safariplus_defined development_mock"
    "node_env development_mock = ''development''"
    by (simp_all add: development_mock_def)
  show ?thesis
    using prepare_step_then_check [OF refl acc refl n, of development_mock] dev by blast
qed

section \<open>Unmounting\<close>

text \<open>
  C10. When the component unmounts while its ref holds a manager, the effect clean-up
  calls \<^verbatim>\<open>cleanup()\<close> on that manager and empties the ref; nothing else changes. The
  manager ends disposed of and \<open>Unlocked\<close>, and no manager of the store is left
  \<open>Locked\<close>, so the scroll lock of the document is released although neither callback,
  monitor nor error path has run.
\<close>

theorem unmount_releases_manager:
  assumes s: "s = run t evs (mount b)"
    and ref: "scrollManagerRef s = Some a"
  shows "unmount s =
      s\<lparr>scrollManagerRef := None, managers := (managers s)[a := cleanup (managers s ! a)],
        trace := trace s @ [Cleanup a]\<rparr> \<and>
    a < length (managers s) \<and>
    scrollManagerRef (unmount s) = None \<and>
    inert (managers (unmount s) ! a) \<and> lock (managers (unmount s) ! a) = Unlocked \<and>
    locked_count (unmount s) = 0"
proof -
  have inv: "store_inv s" unfolding s by (rule inv_reachable)
  have a: "a < length (managers s)" using inv ref by (simp add: store_inv_def ref_valid_def)
  have u: "unmount s = (call_cleanup a s)\<lparr>scrollManagerRef := None\<rparr>"
    using ref by (simp add: unmount_def)
  have rel: "all_released (unmount s)"
    unfolding u using released_call_cleanup_ref [OF inv ref] by simp
  have "a < length (managers (unmount s))" using a by (simp add: u)
  then have m: "inert (managers (unmount s) ! a) \<and> lock (managers (unmount s) ! a) = Unlocked"
    using rel by (simp add: all_released_def)
  have eq: "unmount s =
      s\<lparr>scrollManagerRef := None, managers := (managers s)[a := cleanup (managers s ! a)],
        trace := trace s @ [Cleanup a]\<rparr>"
    by (simp add: u call_defs)
  have "scrollManagerRef (unmount s) = None" by (simp add: u)
  then show ?thesis using eq a m released_locked_count [OF rel] by blast
qed

text \<open>
  The component unmounts while the dialog of the example run is open, scroll disabled by
  the call of \<^verbatim>\<open>openBookingDialog\<close>.
\<close>

theorem unmount_releases_manager_witness:
  "lock (managers (run (\<lambda>k. k) [example_route, Submit widget_available] (mount False)) ! 0) = Locked \<and>
   scrollManagerRef (unmount (run (\<lambda>k. k) [example_route, Submit widget_available] (mount False)))
     = None \<and>
   inert (managers (unmount (run (\<lambda>k. k) [example_route, Submit widget_available] (mount False))) ! 0) \<and>
   lock (managers (unmount (run (\<lambda>k. k) [example_route, Submit widget_available] (mount False))) ! 0)
     = Unlocked \<and>
   locked_count (unmount (run (\<lambda>k. k) [example_route, Submit widget_available] (mount False))) = 0"
proof -
  let ?s = "run (\<lambda>k. k) [example_route, Submit widget_available] (mount False)"
  have ref: "scrollManagerRef ?s = Some 0" by (simp add: example_open)
  have locked: "lock (managers ?s ! 0) = Locked" by (simp add: example_open)
  show ?thesis
    using unmount_releases_manager [OF refl ref] locked by blast
qed

end
